theory Spec2Isabelle
  imports Main "HOL-Library.Sublist" "HOL-Library.Multiset" "HOL-Library.Word"
begin

section \<open>JavaScript values and the runtime operations the servers use\<close>

text \<open>
  The servers of the repository (the stdio MCP server \<^verbatim>\<open>index.js\<close> and the
  MCP-over-HTTP server) handle parsed JSON. A value is modelled as the code sees it:
  \<open>JUndefined\<close> is an absent property or argument, objects are association lists in
  insertion order with distinct keys, strings are the UTF-8 bytes of their text. A number
  is an integer that JavaScript represents exactly and prints in full, the signed value
  \<open>sint n\<close> of a 54-bit word (from \<open>-2^53\<close> to \<open>2^53 - 1\<close>); fractions and larger
  magnitudes are not values of the model. What the source computes on doubles
  (percentages with \<^verbatim>\<open>toFixed\<close>, \<^verbatim>\<open>Math.log\<close>), the collation of
  \<^verbatim>\<open>localeCompare\<close> and the order that \<^verbatim>\<open>Array.prototype.sort\<close> produces under an
  inconsistent comparator are fields of the record \<open>jsenv\<close> below and are never
  evaluated by the model.
\<close>

datatype jsval =
    JUndefined
  | JNull
  | JBool bool
  | JNum "54 word"
  | JStr string
  | JArr "jsval list"
  | JObj "(string \<times> jsval) list"

datatype jserror = JSError (errname: string) (message: string)

definition TypeError :: "string \<Rightarrow> jserror" where
  "TypeError m = JSError ''TypeError'' m"

definition Error :: "string \<Rightarrow> jserror" where
  "Error m = JSError ''Error'' m"

text \<open>A computation that either throws (\<open>Inl\<close>) or has a value, and its sequencing.\<close>

definition bindE :: "jserror + 'a \<Rightarrow> ('a \<Rightarrow> jserror + 'b) \<Rightarrow> jserror + 'b" where
  "bindE r f = (case r of Inl e \<Rightarrow> Inl e | Inr a \<Rightarrow> f a)"

primrec mapE :: "('a \<Rightarrow> jserror + 'b) \<Rightarrow> 'a list \<Rightarrow> jserror + 'b list" where
  "mapE f [] = Inr []"
| "mapE f (x # xs) =
     (case f x of
        Inl e \<Rightarrow> Inl e
      | Inr y \<Rightarrow> (case mapE f xs of Inl e \<Rightarrow> Inl e | Inr ys \<Rightarrow> Inr (y # ys)))"

fun truthy :: "jsval \<Rightarrow> bool" where
  "truthy JUndefined = False"
| "truthy JNull = False"
| "truthy (JBool b) = b"
| "truthy (JNum n) = (n \<noteq> 0)"
| "truthy (JStr s) = (s \<noteq> [])"
| "truthy (JArr xs) = True"
| "truthy (JObj kvs) = True"

fun nullish :: "jsval \<Rightarrow> bool" where
  "nullish JUndefined = True"
| "nullish JNull = True"
| "nullish v = False"

text \<open>\<open>a || b\<close>.\<close>

definition orElse :: "jsval \<Rightarrow> jsval \<Rightarrow> jsval" where
  "orElse a b = (if truthy a then a else b)"

text \<open>
  \<open>v.k\<close> on a value that is neither \<open>undefined\<close> nor \<open>null\<close>: the own property of an
  object, \<open>undefined\<close> otherwise (none of the property names the servers read is
  inherited from a prototype).
\<close>

fun propOf :: "jsval \<Rightarrow> string \<Rightarrow> jsval" where
  "propOf (JObj kvs) k = (case map_of kvs k of None \<Rightarrow> JUndefined | Some v \<Rightarrow> v)"
| "propOf v k = JUndefined"

text \<open>\<open>v.k\<close> in general: reading a property of \<open>undefined\<close> or \<open>null\<close> throws.\<close>

fun typeName :: "jsval \<Rightarrow> string" where
  "typeName JUndefined = ''undefined''"
| "typeName v = ''null''"

definition getProp :: "jsval \<Rightarrow> string \<Rightarrow> jserror + jsval" where
  "getProp v k =
     (if nullish v
      then Inl (TypeError (''Cannot read properties of '' @ typeName v @ '' (reading '' @ [CHR 0x27] @ k @ [CHR 0x27] @ '')''))
      else Inr (propOf v k))"

text \<open>\<open>v?.k\<close>.\<close>

definition optProp :: "jsval \<Rightarrow> string \<Rightarrow> jsval" where
  "optProp v k = (if nullish v then JUndefined else propOf v k)"

definition digit :: "nat \<Rightarrow> char" where
  "digit d = ''0123456789'' ! d"

fun decNat :: "nat \<Rightarrow> string" where
  "decNat n = (if n < 10 then [digit n] else decNat (n div 10) @ [digit (n mod 10)])"

declare decNat.simps [simp del]

definition decInt :: "int \<Rightarrow> string" where
  "decInt i = (if i < 0 then ''-'' @ decNat (nat (- i)) else decNat (nat i))"

text \<open>
  String conversion, as a template literal \<open>${v}\<close> and \<^verbatim>\<open>Array.prototype.join\<close> do
  it. An object converts through its \<^verbatim>\<open>toString\<close>: the inherited one gives
  \<^verbatim>\<open>[object Object]\<close>; an own member of that name is parsed JSON and never callable,
  and then neither is the inherited \<^verbatim>\<open>valueOf\<close> of any help, so the conversion throws.
  An array joins the conversions of its elements, \<open>undefined\<close> and \<open>null\<close> as the empty
  string.
\<close>

fun toStr :: "jsval \<Rightarrow> jserror + string"
  and joinVals :: "string \<Rightarrow> jsval list \<Rightarrow> jserror + string" where
  "toStr JUndefined = Inr ''undefined''"
| "toStr JNull = Inr ''null''"
| "toStr (JBool b) = Inr (if b then ''true'' else ''false'')"
| "toStr (JNum n) = Inr (decInt (sint n))"
| "toStr (JStr s) = Inr s"
| "toStr (JArr xs) = joinVals '','' xs"
| "toStr (JObj kvs) =
     (if map_of kvs ''toString'' = None then Inr ''[object Object]''
      else Inl (TypeError ''Cannot convert object to primitive value''))"
| "joinVals sep [] = Inr []"
| "joinVals sep (x # xs) =
     (case (if nullish x then Inr [] else toStr x) of
        Inl e \<Rightarrow> Inl e
      | Inr s \<Rightarrow>
          (if xs = [] then Inr s
           else (case joinVals sep xs of Inl e \<Rightarrow> Inl e | Inr r \<Rightarrow> Inr (s @ sep @ r))))"

text \<open>
  A template literal: its literal chunks, the values it converts and the strings of the
  expressions it embeds, from left to right; the first one that throws ends it.
\<close>

datatype part = Lit string | Val jsval | Sub "jserror + string"

fun partStr :: "part \<Rightarrow> jserror + string" where
  "partStr (Lit s) = Inr s"
| "partStr (Val v) = toStr v"
| "partStr (Sub r) = r"

primrec tmpl :: "part list \<Rightarrow> jserror + string" where
  "tmpl [] = Inr []"
| "tmpl (p # ps) = bindE (partStr p) (\<lambda>s. bindE (tmpl ps) (\<lambda>r. Inr (s @ r)))"

text \<open>
  The code points of a string, each as a string: what \<^verbatim>\<open>for ... of\<close> iterates and,
  for the text of the Basic Multilingual Plane, what indexing and spreading see.
\<close>

definition utf8Len :: "char \<Rightarrow> nat" where
  "utf8Len c = (if (of_char c :: nat) < 0xC0 then 1 else if (of_char c :: nat) < 0xE0 then 2
                else if (of_char c :: nat) < 0xF0 then 3 else 4)"

function codePoints :: "string \<Rightarrow> string list" where
  "codePoints [] = []"
| "codePoints (c # cs) = take (utf8Len c) (c # cs) # codePoints (drop (utf8Len c - 1) cs)"
  by pat_completeness auto

termination codePoints
  by (relation "measure length") auto

definition chars :: "string \<Rightarrow> jsval list" where
  "chars s = map JStr (codePoints s)"

text \<open>\<open>v[0]\<close> on a value that is neither \<open>undefined\<close> nor \<open>null\<close>.\<close>

fun index0 :: "jsval \<Rightarrow> jsval" where
  "index0 (JArr []) = JUndefined"
| "index0 (JArr (x # xs)) = x"
| "index0 (JStr s) = (case chars s of [] \<Rightarrow> JUndefined | c # cs \<Rightarrow> c)"
| "index0 (JObj kvs) = propOf (JObj kvs) ''0''"
| "index0 v = JUndefined"

text \<open>\<open>for (const x of v)\<close>: arrays and strings are iterable, nothing else in JSON is.\<close>

fun forOf :: "string \<Rightarrow> jsval \<Rightarrow> jserror + jsval list" where
  "forOf what (JArr xs) = Inr xs"
| "forOf what (JStr s) = Inr (chars s)"
| "forOf what v = Inl (TypeError (what @ '' is not iterable''))"

text \<open>\<open>v.map(f)\<close>, \<open>v.filter(f)\<close>: only an array has the method.\<close>

fun asArray :: "string \<Rightarrow> string \<Rightarrow> jsval \<Rightarrow> jserror + jsval list" where
  "asArray what meth (JArr xs) = Inr xs"
| "asArray what meth JUndefined =
     Inl (TypeError (''Cannot read properties of undefined (reading '' @ [CHR 0x27] @ meth @ [CHR 0x27] @ '')''))"
| "asArray what meth JNull =
     Inl (TypeError (''Cannot read properties of null (reading '' @ [CHR 0x27] @ meth @ [CHR 0x27] @ '')''))"
| "asArray what meth v = Inl (TypeError (what @ ''.'' @ meth @ '' is not a function''))"

text \<open>\<open>{...v, k1: v1}\<close>: spreading copies own enumerable properties; a key that is
  already present keeps its place and takes the new value.\<close>

fun indexed :: "nat \<Rightarrow> jsval list \<Rightarrow> (string \<times> jsval) list" where
  "indexed i [] = []"
| "indexed i (x # xs) = (decNat i, x) # indexed (Suc i) xs"

fun spread :: "jsval \<Rightarrow> (string \<times> jsval) list" where
  "spread (JObj kvs) = kvs"
| "spread (JArr xs) = indexed 0 xs"
| "spread (JStr s) = indexed 0 (chars s)"
| "spread v = []"

fun setProp :: "string \<Rightarrow> jsval \<Rightarrow> (string \<times> jsval) list \<Rightarrow> (string \<times> jsval) list" where
  "setProp k v [] = [(k, v)]"
| "setProp k v ((k', v') # kvs) = (if k = k' then (k, v) # kvs else (k', v') # setProp k v kvs)"

text \<open>
  \<open>xs.sort(cmp)\<close> with a comparator that is a consistent order on the elements: the
  sort is stable, so its result is the one of inserting every element before the first
  later one that it does not exceed.
\<close>

definition exceeds :: "('a \<Rightarrow> 'a \<Rightarrow> int) \<Rightarrow> 'a \<Rightarrow> 'a \<Rightarrow> bool" where
  "exceeds cmp x y = (0 < cmp x y)"

fun insertBy :: "('a \<Rightarrow> 'a \<Rightarrow> int) \<Rightarrow> 'a \<Rightarrow> 'a list \<Rightarrow> 'a list" where
  "insertBy cmp x [] = [x]"
| "insertBy cmp x (y # ys) = (if exceeds cmp x y then y # insertBy cmp x ys else x # y # ys)"

fun jsSort :: "('a \<Rightarrow> 'a \<Rightarrow> int) \<Rightarrow> 'a list \<Rightarrow> 'a list" where
  "jsSort cmp [] = []"
| "jsSort cmp (x # xs) = insertBy cmp x (jsSort cmp xs)"

text \<open>
  \<open>parseInt(v)\<close>: the string of \<open>v\<close>, leading white space skipped (the white space
  and line terminators of the language, in UTF-8), an optional sign, then hexadecimal
  digits after \<open>0x\<close> or else decimal digits; \<open>None\<close> is \<open>NaN\<close>. The result is the
  integer that the digits denote, before it is rounded to a double.
\<close>

definition isSpace1 :: "char \<Rightarrow> bool" where
  "isSpace1 c = (c \<in> set [CHR 0x20, CHR 0x09, CHR 0x0A, CHR 0x0B, CHR 0x0C, CHR 0x0D])"

definition isSpace2 :: "char \<Rightarrow> char \<Rightarrow> bool" where
  "isSpace2 a b = (a = CHR 0xC2 \<and> b = CHR 0xA0)"

definition isSpace3 :: "char \<Rightarrow> char \<Rightarrow> char \<Rightarrow> bool" where
  "isSpace3 a b c =
     ((a = CHR 0xE1 \<and> b = CHR 0x9A \<and> c = CHR 0x80)
      \<or> (a = CHR 0xE2 \<and> b = CHR 0x80 \<and> (of_char c :: nat) \<in> {0x80 .. 0x8A} \<union> {0xA8, 0xA9, 0xAF})
      \<or> (a = CHR 0xE2 \<and> b = CHR 0x81 \<and> c = CHR 0x9F)
      \<or> (a = CHR 0xE3 \<and> b = CHR 0x80 \<and> c = CHR 0x80)
      \<or> (a = CHR 0xEF \<and> b = CHR 0xBB \<and> c = CHR 0xBF))"

fun skipSpace :: "string \<Rightarrow> string" where
  "skipSpace (a # b # c # r) =
     (if isSpace1 a then skipSpace (b # c # r)
      else if isSpace2 a b then skipSpace (c # r)
      else if isSpace3 a b c then skipSpace r
      else a # b # c # r)"
| "skipSpace [a, b] = (if isSpace1 a then skipSpace [b] else if isSpace2 a b then [] else [a, b])"
| "skipSpace [a] = (if isSpace1 a then [] else [a])"
| "skipSpace [] = []"

definition decVal :: "char \<Rightarrow> nat option" where
  "decVal c = map_of (zip ''0123456789'' [0 ..< 10]) c"

definition hexVal :: "char \<Rightarrow> nat option" where
  "hexVal c = map_of (zip ''0123456789abcdefABCDEF'' ([0 ..< 16] @ [10 ..< 16])) c"

fun readDigits :: "nat \<Rightarrow> (char \<Rightarrow> nat option) \<Rightarrow> string \<Rightarrow> nat option \<Rightarrow> nat option" where
  "readDigits b dv [] acc = acc"
| "readDigits b dv (c # cs) acc =
     (case dv c of
        None \<Rightarrow> acc
      | Some d \<Rightarrow> readDigits b dv cs (Some (b * (case acc of None \<Rightarrow> 0 | Some a \<Rightarrow> a) + d)))"

fun readUnsigned :: "string \<Rightarrow> nat option" where
  "readUnsigned (c # x # r) =
     (if c = CHR ''0'' \<and> (x = CHR ''x'' \<or> x = CHR ''X'')
      then readDigits 16 hexVal r None
      else readDigits 10 decVal (c # x # r) None)"
| "readUnsigned u = readDigits 10 decVal u None"

fun readSigned :: "string \<Rightarrow> int option" where
  "readSigned [] = None"
| "readSigned (c # r) =
     (if c = CHR ''-'' then map_option (\<lambda>n. - int n) (readUnsigned r)
      else if c = CHR ''+'' then map_option int (readUnsigned r)
      else map_option int (readUnsigned (c # r)))"

definition parseInt :: "jsval \<Rightarrow> jserror + int option" where
  "parseInt v = bindE (toStr v) (\<lambda>s. Inr (readSigned (skipSpace s)))"

text \<open>The integers that a double holds exactly.\<close>

definition exact :: "int \<Rightarrow> bool" where
  "exact n = (\<bar>n\<bar> \<le> 2 ^ 53)"

section \<open>The hypervisor API and the environment\<close>

text \<open>
  One request to the hypervisor API. The base URL and the authorization header are
  constants of the configuration and are left out; \<open>body = JUndefined\<close> is a request
  without a body.
\<close>

record request =
  endpoint :: string
  httpMethod :: string
  body :: jsval

text \<open>
  What \<^verbatim>\<open>fetch\<close> and the parsing of its body can do with a request: reject, answer
  with a status outside 2xx, answer with a blank body, answer with a body that is not
  JSON, or answer with JSON.
\<close>

datatype fetch_outcome =
    NetErr string
  | HttpErr nat string string
  | Blank
  | BadJson string
  | Json jsval

type_synonym backend = "request \<Rightarrow> fetch_outcome"

text \<open>
  A computation that talks to the hypervisor: the requests it issued, in order, and
  either the error it threw (\<open>Inl\<close>) or its value.
\<close>

type_synonym 'a io = "request list \<times> (jserror + 'a)"

definition returnIO :: "'a \<Rightarrow> 'a io" where
  "returnIO a = ([], Inr a)"

definition throwIO :: "jserror \<Rightarrow> 'a io" where
  "throwIO e = ([], Inl e)"

definition liftE :: "jserror + 'a \<Rightarrow> 'a io" where
  "liftE r = ([], r)"

definition bindIO :: "'a io \<Rightarrow> ('a \<Rightarrow> 'b io) \<Rightarrow> 'b io" where
  "bindIO m f =
     (case m of
        (tr, Inl e) \<Rightarrow> (tr, Inl e)
      | (tr, Inr a) \<Rightarrow> (case f a of (tr', r) \<Rightarrow> (tr @ tr', r)))"

text \<open>\<open>try { m } catch (error) { h error }\<close>.\<close>

definition catchIO :: "'a io \<Rightarrow> (jserror \<Rightarrow> 'a io) \<Rightarrow> 'a io" where
  "catchIO m h =
     (case m of
        (tr, Inl e) \<Rightarrow> (case h e of (tr', r) \<Rightarrow> (tr @ tr', r))
      | (tr, Inr a) \<Rightarrow> (tr, Inr a))"

text \<open>\<open>for (const x of xs) { s = step x s }\<close>: the first throw leaves the loop.\<close>

primrec forEachIO :: "('a \<Rightarrow> 's \<Rightarrow> 's io) \<Rightarrow> 'a list \<Rightarrow> 's \<Rightarrow> 's io" where
  "forEachIO step [] s = returnIO s"
| "forEachIO step (x # xs) s = bindIO (step x s) (forEachIO step xs)"

text \<open>
  The process-wide configuration read from the environment at start-up. Only the
  elevation flag decides behaviour.
\<close>

record config =
  allowElevated :: bool

text \<open>
  What a server takes from its runtime and from its own number formatting, none of which
  the model computes: \<^verbatim>\<open>formatUptime\<close> and \<^verbatim>\<open>formatBytes\<close> of the server class,
  \<open>percentOf x\<close> for \<^verbatim>\<open>(x * 100).toFixed(1)\<close>, \<open>ratioOf a b\<close> for
  \<^verbatim>\<open>((a / b) * 100).toFixed(1)\<close>, \<open>resourceUsage nodes\<close> for the loop over the CPU
  and memory totals of the cluster summary and the two lines that print them (all of
  these throw when the arithmetic meets an object that does not convert),
  \<^verbatim>\<open>localeCompare\<close>, \<open>upperCase\<close> for \<^verbatim>\<open>toUpperCase\<close> on text outside ASCII,
  \<open>engineSort cmp xs\<close> for what \<^verbatim>\<open>xs.sort(cmp)\<close> does when the comparator \<open>cmp\<close>
  (named by its source text) is not a consistent order on \<open>xs\<close>, and \<open>blankBody\<close> for
  the message with which \<^verbatim>\<open>response.json()\<close> of the fetch library rejects a blank
  body. Each server has an environment of its own.
\<close>

record jsenv =
  formatUptime :: "jsval \<Rightarrow> jserror + string"
  formatBytes :: "jsval \<Rightarrow> jserror + string"
  percentOf :: "jsval \<Rightarrow> jserror + string"
  ratioOf :: "jsval \<Rightarrow> jsval \<Rightarrow> jserror + string"
  resourceUsage :: "jsval list \<Rightarrow> jserror + string"
  localeCompare :: "string \<Rightarrow> string \<Rightarrow> int"
  upperCase :: "string \<Rightarrow> string"
  engineSort :: "string \<Rightarrow> jsval list \<Rightarrow> jserror + jsval list"
  blankBody :: string

text \<open>\<open>s.toUpperCase()\<close>: the letters of ASCII are mapped here.\<close>

definition upperChar :: "char \<Rightarrow> char" where
  "upperChar c =
     (case map_of (zip ''abcdefghijklmnopqrstuvwxyz'' ''ABCDEFGHIJKLMNOPQRSTUVWXYZ'') c of
        None \<Rightarrow> c
      | Some u \<Rightarrow> u)"

definition toUpperCase :: "jsenv \<Rightarrow> string \<Rightarrow> string" where
  "toUpperCase E s = (if list_all (\<lambda>c. (of_char c :: nat) < 0x80) s then map upperChar s else upperCase E s)"

text \<open>\<open>v.toUpperCase()\<close> on any value; \<open>what\<close> is the source text of \<open>v\<close>.\<close>

definition upperOf :: "jsenv \<Rightarrow> string \<Rightarrow> jsval \<Rightarrow> jserror + string" where
  "upperOf E what v =
     (case v of
        JStr s \<Rightarrow> Inr (toUpperCase E s)
      | JUndefined \<Rightarrow> Inl (TypeError (''Cannot read properties of undefined (reading '' @ [CHR 0x27] @ ''toUpperCase'' @ [CHR 0x27] @ '')''))
      | JNull \<Rightarrow> Inl (TypeError (''Cannot read properties of null (reading '' @ [CHR 0x27] @ ''toUpperCase'' @ [CHR 0x27] @ '')''))
      | _ \<Rightarrow> Inl (TypeError (what @ ''.toUpperCase is not a function'')))"

text \<open>
  \<^verbatim>\<open>xs.sort((a, b) => key(a) - key(b))\<close>, where \<open>key v\<close> is \<open>Some n\<close> when the
  source's key of \<open>v\<close> is exactly the integer \<open>n\<close>. An array shorter than two is not
  compared at all. When every key is such an integer the comparator is a consistent
  order; otherwise (a key that is \<open>NaN\<close>, rounded, or throws) the outcome is the
  engine's.
\<close>

definition sortByNumber :: "jsenv \<Rightarrow> string \<Rightarrow> (jsval \<Rightarrow> int option) \<Rightarrow> jsval list \<Rightarrow> jserror + jsval list" where
  "sortByNumber E cmp key xs =
     (if length xs < 2 then Inr xs
      else if list_all (\<lambda>x. key x \<noteq> None) xs
      then Inr (jsSort (\<lambda>a b. the (key a) - the (key b)) xs)
      else engineSort E cmp xs)"

text \<open>
  \<^verbatim>\<open>xs.sort((a, b) => a.k.localeCompare(b.k))\<close>. When every name is a string the
  comparator is the collation of the runtime; otherwise some call may throw or convert
  its argument, depending on which elements the engine passes as \<open>a\<close>.
\<close>

definition nameOf :: "string \<Rightarrow> jsval \<Rightarrow> string" where
  "nameOf k x = (case propOf x k of JStr s \<Rightarrow> s | _ \<Rightarrow> [])"

definition isStr :: "jsval \<Rightarrow> bool" where
  "isStr v = (case v of JStr s \<Rightarrow> True | _ \<Rightarrow> False)"

definition sortByName :: "jsenv \<Rightarrow> string \<Rightarrow> jsval list \<Rightarrow> jserror + jsval list" where
  "sortByName E k xs =
     (if length xs < 2 then Inr xs
      else if list_all (\<lambda>x. isStr (propOf x k)) xs
      then Inr (jsSort (\<lambda>a b. localeCompare E (nameOf k a) (nameOf k b)) xs)
      else engineSort E (''a.'' @ k @ ''.localeCompare(b.'' @ k @ '')'') xs)"

text \<open>The tool result \<^verbatim>\<open>{ content: [{ type: 'text', text: t }] }\<close>.\<close>

definition textContent :: "string \<Rightarrow> jsval" where
  "textContent t = JObj [(''content'', JArr [JObj [(''type'', JStr ''text''), (''text'', JStr t)]])]"

section \<open>The stdio MCP server (index.js)\<close>

text \<open>The icon literals of \<^verbatim>\<open>index.js\<close>, as the UTF-8 bytes of the source file.\<close>

definition I_SERVER :: string where
  "I_SERVER = [CHR 0xC3, CHR 0xB0, CHR 0xC5, CHR 0xB8, CHR 0xE2, CHR 0x80, CHR 0x93, CHR 0xC2, CHR 0xA5,
               CHR 0xC3, CHR 0xAF, CHR 0xC2, CHR 0xB8]"

definition I_GREEN :: string where
  "I_GREEN = [CHR 0xC3, CHR 0xB0, CHR 0xC5, CHR 0xB8, CHR 0xC5, CHR 0xB8, CHR 0xC2, CHR 0xA2]"

definition I_RED :: string where
  "I_RED = [CHR 0xC3, CHR 0xB0, CHR 0xC5, CHR 0xB8, CHR 0xE2, CHR 0x80, CHR 0x9D, CHR 0xC2, CHR 0xB4]"

definition I_YELLOW :: string where
  "I_YELLOW = [CHR 0xC3, CHR 0xB0, CHR 0xC5, CHR 0xB8, CHR 0xC5, CHR 0xB8, CHR 0xC2, CHR 0xA1]"

definition I_BULLET :: string where
  "I_BULLET = [CHR 0xC3, CHR 0xA2, CHR 0xE2, CHR 0x82, CHR 0xAC, CHR 0xC2, CHR 0xA2]"

definition I_WARN :: string where
  "I_WARN = [CHR 0xC3, CHR 0xA2, CHR 0xC5, CHR 0xA1, CHR 0xC2, CHR 0xA0, CHR 0xC3, CHR 0xAF, CHR 0xC2, CHR 0xB8]"

definition I_LAPTOP :: string where
  "I_LAPTOP = [CHR 0xC3, CHR 0xB0, CHR 0xC5, CHR 0xB8, CHR 0xE2, CHR 0x80, CHR 0x99, CHR 0xC2, CHR 0xBB]"

definition I_BOX :: string where
  "I_BOX = [CHR 0xC3, CHR 0xB0, CHR 0xC5, CHR 0xB8, CHR 0xE2, CHR 0x80, CHR 0x9C, CHR 0xC2, CHR 0xA6]"

definition I_CROSS :: string where
  "I_CROSS = [CHR 0xC3, CHR 0xA2, CHR 0xC5, CHR 0x92]"

definition I_DISK :: string where
  "I_DISK = [CHR 0xC3, CHR 0xB0, CHR 0xC5, CHR 0xB8, CHR 0xE2, CHR 0x80, CHR 0x99, CHR 0xC2, CHR 0xBE]"

definition I_CRANE :: string where
  "I_CRANE = [CHR 0xC3, CHR 0xB0, CHR 0xC5, CHR 0xB8, CHR 0xE2, CHR 0x80, CHR 0x94, CHR 0xC3, CHR 0xAF, CHR 0xC2, CHR 0xB8]"

text \<open>
  \<^verbatim>\<open>proxmoxRequest\<close>: the request is always issued; every failure inside the
  \<^verbatim>\<open>try\<close> is rethrown as an \<^verbatim>\<open>Error\<close> with a prefixed message; the value is the
  \<^verbatim>\<open>data\<close> member of the parsed body.
\<close>

definition proxmoxRequest :: "backend \<Rightarrow> string \<Rightarrow> string \<Rightarrow> jsval \<Rightarrow> jsval io" where
  "proxmoxRequest be ep m b =
     (let rq = \<lparr>endpoint = ep, httpMethod = m, body = (if truthy b then b else JUndefined)\<rparr> in
      ([rq],
       case be rq of
         NetErr msg \<Rightarrow> Inl (Error (''Failed to connect to Proxmox: '' @ msg))
       | HttpErr st stText txt \<Rightarrow>
           Inl (Error (''Failed to connect to Proxmox: '' @ ''Proxmox API error: '' @ decNat st @ '' - '' @ txt))
       | Blank \<Rightarrow> Inl (Error (''Failed to connect to Proxmox: '' @ ''Empty response from Proxmox API''))
       | BadJson msg \<Rightarrow> Inl (Error (''Failed to parse Proxmox API response: '' @ msg))
       | Json d \<Rightarrow>
           (case getProp d ''data'' of
              Inl e \<Rightarrow> Inl (Error (''Failed to connect to Proxmox: '' @ message e))
            | Inr v \<Rightarrow> Inr v)))"

text \<open>\<^verbatim>\<open>node.loadavg?.[0]?.toFixed(2) || 'N/A'\<close>.\<close>

definition loadText :: "jsval \<Rightarrow> jserror + string" where
  "loadText la =
     (if nullish la then Inr ''N/A''
      else (case index0 la of
              JUndefined \<Rightarrow> Inr ''N/A''
            | JNull \<Rightarrow> Inr ''N/A''
            | JNum n \<Rightarrow> Inr (decInt (sint n) @ ''.00'')
            | v \<Rightarrow> Inl (TypeError ''node.loadavg?.[0]?.toFixed is not a function'')))"

text \<open>
  The body of the loop of \<^verbatim>\<open>getNodes\<close>: the constants of one node, then its lines.
\<close>

definition nodeBlock :: "jsenv \<Rightarrow> jsval \<Rightarrow> jserror + string" where
  "nodeBlock E node =
     bindE (getProp node ''status'') (\<lambda>st.
     bindE (if truthy (propOf node ''uptime'') then formatUptime E (propOf node ''uptime'') else Inr ''N/A'') (\<lambda>uptime.
     bindE (if truthy (propOf node ''cpu'') then tmpl [Sub (percentOf E (propOf node ''cpu'')), Lit ''%'']
            else Inr ''N/A'') (\<lambda>cpuUsage.
     bindE (if truthy (propOf node ''mem'') \<and> truthy (propOf node ''maxmem'')
            then tmpl [Sub (formatBytes E (propOf node ''mem'')), Lit '' / '',
                       Sub (formatBytes E (propOf node ''maxmem'')), Lit '' ('',
                       Sub (ratioOf E (propOf node ''mem'') (propOf node ''maxmem'')), Lit ''%)'']
            else Inr ''N/A'') (\<lambda>memUsage.
     tmpl [Lit (if st = JStr ''online'' then I_GREEN else I_RED), Lit '' **'', Val (propOf node ''node''), Lit ''**\<newline>'',
           Lit (''   '' @ I_BULLET @ '' Status: ''), Val st, Lit ''\<newline>'',
           Lit (''   '' @ I_BULLET @ '' Uptime: '' @ uptime @ ''\<newline>''),
           Lit (''   '' @ I_BULLET @ '' CPU: '' @ cpuUsage @ ''\<newline>''),
           Lit (''   '' @ I_BULLET @ '' Memory: '' @ memUsage @ ''\<newline>''),
           Lit (''   '' @ I_BULLET @ '' Load: ''), Sub (loadText (propOf node ''loadavg'')), Lit ''\<newline>\<newline>'']))))"

definition getNodes :: "jsenv \<Rightarrow> backend \<Rightarrow> jsval io" where
  "getNodes E be =
     bindIO (proxmoxRequest be ''/nodes'' ''GET'' JNull) (\<lambda>nodes.
       liftE (bindE (forOf ''nodes'' nodes) (\<lambda>ns.
              bindE (mapE (nodeBlock E) ns) (\<lambda>blocks.
              Inr (textContent (I_SERVER @ ''  **Proxmox Cluster Nodes**\<newline>\<newline>'' @ concat blocks))))))"

text \<open>\<^verbatim>\<open>status.loadavg?.join(', ') || 'N/A'\<close>.\<close>

definition loadAverage :: "jsval \<Rightarrow> jserror + string" where
  "loadAverage la =
     (case la of
        JUndefined \<Rightarrow> Inr ''N/A''
      | JNull \<Rightarrow> Inr ''N/A''
      | JArr xs \<Rightarrow> bindE (joinVals '', '' xs) (\<lambda>s. Inr (if s = [] then ''N/A'' else s))
      | v \<Rightarrow> Inl (TypeError ''status.loadavg?.join is not a function''))"

text \<open>
  \<^verbatim>\<open>m ? `${this.formatBytes(m.used)} / ${this.formatBytes(m.total)} (${((m.used / m.total) * 100).toFixed(1)}%)` : 'N/A'\<close>.
\<close>

definition usedOfTotal :: "jsenv \<Rightarrow> jsval \<Rightarrow> jserror + string" where
  "usedOfTotal E m =
     (if truthy m
      then tmpl [Sub (formatBytes E (propOf m ''used'')), Lit '' / '', Sub (formatBytes E (propOf m ''total'')),
                 Lit '' ('', Sub (ratioOf E (propOf m ''used'') (propOf m ''total'')), Lit ''%)'']
      else Inr ''N/A'')"

definition nodeStatusText :: "jsenv \<Rightarrow> jsval \<Rightarrow> jsval \<Rightarrow> jserror + string" where
  "nodeStatusText E node status =
     tmpl [Lit (I_SERVER @ ''  **Node ''), Val node, Lit '' Status**\<newline>\<newline>'',
           Lit (I_BULLET @ '' **Status**: ''),
           Sub (bindE (getProp status ''uptime'') (\<lambda>up. Inr (if truthy up then I_GREEN @ '' Online'' else I_RED @ '' Offline''))),
           Lit ''\<newline>'',
           Lit (I_BULLET @ '' **Uptime**: ''),
           Sub (if truthy (propOf status ''uptime'') then formatUptime E (propOf status ''uptime'') else Inr ''N/A''),
           Lit ''\<newline>'',
           Lit (I_BULLET @ '' **Load Average**: ''), Sub (loadAverage (propOf status ''loadavg'')), Lit ''\<newline>'',
           Lit (I_BULLET @ '' **CPU Usage**: ''),
           Sub (if truthy (propOf status ''cpu'') then tmpl [Sub (percentOf E (propOf status ''cpu'')), Lit ''%'']
                else Inr ''N/A''),
           Lit ''\<newline>'',
           Lit (I_BULLET @ '' **Memory**: ''), Sub (usedOfTotal E (propOf status ''memory'')), Lit ''\<newline>'',
           Lit (I_BULLET @ '' **Root Disk**: ''), Sub (usedOfTotal E (propOf status ''rootfs'')), Lit ''\<newline>'']"

definition nodeStatusNotice :: string where
  "nodeStatusNotice =
     I_WARN @ ''  **Node Status Requires Elevated Permissions**\<newline>\<newline>''
     @ ''To view detailed node status, set `PROXMOX_ALLOW_ELEVATED=true` in your .env file ''
     @ ''and ensure your API token has Sys.Audit permissions.\<newline>\<newline>''
     @ ''**Current permissions**: Basic (node listing only)''"

definition getNodeStatus :: "config \<Rightarrow> jsenv \<Rightarrow> backend \<Rightarrow> jsval \<Rightarrow> jsval io" where
  "getNodeStatus cfg E be node =
     (if \<not> allowElevated cfg then returnIO (textContent nodeStatusNotice)
      else bindIO (liftE (toStr node)) (\<lambda>n.
           bindIO (proxmoxRequest be (''/nodes/'' @ n @ ''/status'') ''GET'' JNull) (\<lambda>status.
           liftE (bindE (nodeStatusText E node status) (\<lambda>out. Inr (textContent out))))))"

text \<open>\<^verbatim>\<open>vm => ({ ...vm, type: t, node: n })\<close>.\<close>

definition tagVM :: "string \<Rightarrow> jsval \<Rightarrow> jsval \<Rightarrow> jsval" where
  "tagVM t n vm = JObj (setProp ''node'' n (setProp ''type'' (JStr t) (spread vm)))"

text \<open>\<^verbatim>\<open>vm => ({ ...vm, type: 'lxc', node: vm.node || node.node })\<close>.\<close>

definition tagLXC :: "jsval \<Rightarrow> jsval \<Rightarrow> jserror + jsval" where
  "tagLXC n vm = bindE (getProp vm ''node'') (\<lambda>own. Inr (tagVM ''lxc'' (orElse own n) vm))"

definition wantsQemu :: "jsval \<Rightarrow> bool" where
  "wantsQemu typeFilter = (typeFilter = JStr ''all'' \<or> typeFilter = JStr ''qemu'')"

definition wantsLxc :: "jsval \<Rightarrow> bool" where
  "wantsLxc typeFilter = (typeFilter = JStr ''all'' \<or> typeFilter = JStr ''lxc'')"

text \<open>
  The body of the loop over all nodes in \<^verbatim>\<open>getVMs\<close>: nothing is caught, so a
  request that fails for one node leaves the loop and the method.
\<close>

definition getVMs_node :: "backend \<Rightarrow> jsval \<Rightarrow> jsval \<Rightarrow> jsval list \<Rightarrow> jsval list io" where
  "getVMs_node be typeFilter node vms =
     bindIO
       (if wantsQemu typeFilter
        then bindIO (liftE (getProp node ''node'')) (\<lambda>nn.
             bindIO (liftE (toStr nn)) (\<lambda>n.
             bindIO (proxmoxRequest be (''/nodes/'' @ n @ ''/qemu'') ''GET'' JNull) (\<lambda>nodeVMs.
             bindIO (liftE (asArray ''nodeVMs'' ''map'' nodeVMs)) (\<lambda>xs.
             returnIO (vms @ map (tagVM ''qemu'' nn) xs)))))
        else returnIO vms)
       (\<lambda>vms1.
          if wantsLxc typeFilter
          then bindIO (liftE (getProp node ''node'')) (\<lambda>nn.
               bindIO (liftE (toStr nn)) (\<lambda>n.
               bindIO (proxmoxRequest be (''/nodes/'' @ n @ ''/lxc'') ''GET'' JNull) (\<lambda>nodeLXCs.
               bindIO (liftE (asArray ''nodeLXCs'' ''map'' nodeLXCs)) (\<lambda>xs.
               bindIO (liftE (mapE (tagLXC nn) xs)) (\<lambda>tagged.
               returnIO (vms1 @ tagged))))))
          else returnIO vms1)"

text \<open>The first part of \<^verbatim>\<open>getVMs\<close>: the list \<^verbatim>\<open>vms\<close> before it is sorted.\<close>

definition getVMs_collect :: "backend \<Rightarrow> jsval \<Rightarrow> jsval \<Rightarrow> jsval list io" where
  "getVMs_collect be nodeFilter typeFilter =
     (if truthy nodeFilter
      then bindIO (liftE (toStr nodeFilter)) (\<lambda>n.
           bindIO (proxmoxRequest be (''/nodes/'' @ n @ ''/qemu'') ''GET'' JNull) (\<lambda>nodeVMs.
           bindIO (proxmoxRequest be (''/nodes/'' @ n @ ''/lxc'') ''GET'' JNull) (\<lambda>nodeLXCs.
           bindIO
             (if wantsQemu typeFilter
              then bindIO (liftE (asArray ''nodeVMs'' ''map'' nodeVMs)) (\<lambda>xs.
                   returnIO (map (tagVM ''qemu'' nodeFilter) xs))
              else returnIO [])
             (\<lambda>vms1.
                if wantsLxc typeFilter
                then bindIO (liftE (asArray ''nodeLXCs'' ''map'' nodeLXCs)) (\<lambda>xs.
                     returnIO (vms1 @ map (tagVM ''lxc'' nodeFilter) xs))
                else returnIO vms1))))
      else bindIO (proxmoxRequest be ''/nodes'' ''GET'' JNull) (\<lambda>nodes.
           bindIO (liftE (forOf ''nodes'' nodes)) (\<lambda>ns.
           forEachIO (getVMs_node be typeFilter) ns [])))"

text \<open>
  The key of \<^verbatim>\<open>(a, b) => parseInt(a.vmid) - parseInt(b.vmid)\<close>: the integer that
  \<^verbatim>\<open>parseInt\<close> reads from the \<^verbatim>\<open>vmid\<close>, when there is one and a double holds it
  exactly.
\<close>

definition vmidKey :: "jsval \<Rightarrow> int option" where
  "vmidKey vm =
     (case parseInt (propOf vm ''vmid'') of
        Inr (Some n) \<Rightarrow> if exact n then Some n else None
      | _ \<Rightarrow> None)"

definition statusIcon :: "jsval \<Rightarrow> string" where
  "statusIcon st = (if st = JStr ''running'' then I_GREEN else if st = JStr ''stopped'' then I_RED else I_YELLOW)"

definition typeIcon :: "jsval \<Rightarrow> string" where
  "typeIcon t = (if t = JStr ''qemu'' then I_SERVER else I_BOX)"

text \<open>
  The body of the rendering loop of \<^verbatim>\<open>getVMs\<close>: the constants of one machine, then
  its lines.
\<close>

definition vmBlock :: "jsenv \<Rightarrow> jsval \<Rightarrow> jserror + string" where
  "vmBlock E vm =
     bindE (getProp vm ''status'') (\<lambda>st.
     bindE (if truthy (propOf vm ''uptime'') then formatUptime E (propOf vm ''uptime'') else Inr ''N/A'') (\<lambda>uptime.
     bindE (if truthy (propOf vm ''cpu'') then tmpl [Sub (percentOf E (propOf vm ''cpu'')), Lit ''%'']
            else Inr ''N/A'') (\<lambda>cpuUsage.
     bindE (if truthy (propOf vm ''mem'') \<and> truthy (propOf vm ''maxmem'')
            then tmpl [Sub (formatBytes E (propOf vm ''mem'')), Lit '' / '', Sub (formatBytes E (propOf vm ''maxmem''))]
            else Inr ''N/A'') (\<lambda>memUsage.
     tmpl [Lit (statusIcon st), Lit '' '', Lit (typeIcon (propOf vm ''type'')), Lit '' **'',
           (if truthy (propOf vm ''name'') then Val (propOf vm ''name'')
            else Sub (tmpl [Lit ''VM-'', Val (propOf vm ''vmid'')])),
           Lit ''** (ID: '', Val (propOf vm ''vmid''), Lit '')\<newline>'',
           Lit (''   '' @ I_BULLET @ '' Node: ''), Val (propOf vm ''node''), Lit ''\<newline>'',
           Lit (''   '' @ I_BULLET @ '' Status: ''), Val st, Lit ''\<newline>'',
           Lit (''   '' @ I_BULLET @ '' Type: ''), Sub (upperOf E ''vm.type'' (propOf vm ''type'')), Lit ''\<newline>'',
           Lit (if st = JStr ''running''
                then ''   '' @ I_BULLET @ '' Uptime: '' @ uptime @ ''\<newline>''
                     @ ''   '' @ I_BULLET @ '' CPU: '' @ cpuUsage @ ''\<newline>''
                     @ ''   '' @ I_BULLET @ '' Memory: '' @ memUsage @ ''\<newline>''
                else []),
           Lit ''\<newline>'']))))"

definition vmsText :: "jsenv \<Rightarrow> jsval list \<Rightarrow> jserror + string" where
  "vmsText E vms =
     (if vms = [] then Inr (I_LAPTOP @ '' **Virtual Machines**\<newline>\<newline>'' @ ''No virtual machines found.\<newline>'')
      else bindE (sortByNumber E ''parseInt(a.vmid) - parseInt(b.vmid)'' vmidKey vms) (\<lambda>ordered.
           bindE (mapE (vmBlock E) ordered) (\<lambda>blocks.
           Inr (I_LAPTOP @ '' **Virtual Machines**\<newline>\<newline>'' @ concat blocks))))"

text \<open>\<^verbatim>\<open>getVMs(nodeFilter = null, typeFilter = 'all')\<close>.\<close>

definition getVMs :: "jsenv \<Rightarrow> backend \<Rightarrow> jsval \<Rightarrow> jsval \<Rightarrow> jsval io" where
  "getVMs E be nodeFilter0 typeFilter0 =
     (let nodeFilter = (if nodeFilter0 = JUndefined then JNull else nodeFilter0);
          typeFilter = (if typeFilter0 = JUndefined then JStr ''all'' else typeFilter0)
      in bindIO (getVMs_collect be nodeFilter typeFilter) (\<lambda>vms.
           liftE (bindE (vmsText E vms) (\<lambda>out. Inr (textContent out)))))"

text \<open>\<^verbatim>\<open>x ? this.formatBytes(x) : 'N/A'\<close>.\<close>

definition bytesOrNA :: "jsenv \<Rightarrow> jsval \<Rightarrow> jserror + string" where
  "bytesOrNA E x = (if truthy x then formatBytes E x else Inr ''N/A'')"

definition vmStatusText :: "jsenv \<Rightarrow> jsval \<Rightarrow> jsval \<Rightarrow> jsval \<Rightarrow> jsval \<Rightarrow> jserror + string" where
  "vmStatusText E node vmid type vmStatus =
     bindE (getProp vmStatus ''status'') (\<lambda>st.
     tmpl ([Lit (statusIcon st), Lit '' '', Lit (typeIcon type), Lit '' **'',
            (if truthy (propOf vmStatus ''name'') then Val (propOf vmStatus ''name'')
             else Sub (tmpl [Lit ''VM-'', Val vmid])),
            Lit ''** (ID: '', Val vmid, Lit '')\<newline>\<newline>'',
            Lit (I_BULLET @ '' **Node**: ''), Val node, Lit ''\<newline>'',
            Lit (I_BULLET @ '' **Status**: ''), Val st, Lit ''\<newline>'',
            Lit (I_BULLET @ '' **Type**: ''), Sub (upperOf E ''type'' type), Lit ''\<newline>'']
           @ (if st = JStr ''running''
              then [Lit (I_BULLET @ '' **Uptime**: ''),
                    Sub (if truthy (propOf vmStatus ''uptime'') then formatUptime E (propOf vmStatus ''uptime'')
                         else Inr ''N/A''),
                    Lit ''\<newline>'',
                    Lit (I_BULLET @ '' **CPU Usage**: ''),
                    Sub (if truthy (propOf vmStatus ''cpu'') then tmpl [Sub (percentOf E (propOf vmStatus ''cpu'')), Lit ''%'']
                         else Inr ''N/A''),
                    Lit ''\<newline>'',
                    Lit (I_BULLET @ '' **Memory**: ''),
                    Sub (if truthy (propOf vmStatus ''mem'') \<and> truthy (propOf vmStatus ''maxmem'')
                         then tmpl [Sub (formatBytes E (propOf vmStatus ''mem'')), Lit '' / '',
                                    Sub (formatBytes E (propOf vmStatus ''maxmem'')), Lit '' ('',
                                    Sub (ratioOf E (propOf vmStatus ''mem'') (propOf vmStatus ''maxmem'')), Lit ''%)'']
                         else Inr ''N/A''),
                    Lit ''\<newline>'',
                    Lit (I_BULLET @ '' **Disk Read**: ''), Sub (bytesOrNA E (propOf vmStatus ''diskread'')), Lit ''\<newline>'',
                    Lit (I_BULLET @ '' **Disk Write**: ''), Sub (bytesOrNA E (propOf vmStatus ''diskwrite'')), Lit ''\<newline>'',
                    Lit (I_BULLET @ '' **Network In**: ''), Sub (bytesOrNA E (propOf vmStatus ''netin'')), Lit ''\<newline>'',
                    Lit (I_BULLET @ '' **Network Out**: ''), Sub (bytesOrNA E (propOf vmStatus ''netout'')), Lit ''\<newline>'']
              else [])))"

text \<open>\<^verbatim>\<open>getVMStatus(node, vmid, type = 'qemu')\<close>.\<close>

definition getVMStatus :: "jsenv \<Rightarrow> backend \<Rightarrow> jsval \<Rightarrow> jsval \<Rightarrow> jsval \<Rightarrow> jsval io" where
  "getVMStatus E be node vmid type0 =
     (let type = (if type0 = JUndefined then JStr ''qemu'' else type0)
      in bindIO (liftE (tmpl [Lit ''/nodes/'', Val node, Lit ''/'', Val type, Lit ''/'', Val vmid, Lit ''/status/current''])) (\<lambda>ep.
         bindIO (proxmoxRequest be ep ''GET'' JNull) (\<lambda>vmStatus.
         liftE (bindE (vmStatusText E node vmid type vmStatus) (\<lambda>out. Inr (textContent out))))))"

text \<open>
  The three texts of \<^verbatim>\<open>executeVMCommand\<close>, as functions of the strings that their
  template literals interpolate.
\<close>

definition execNotice :: "string \<Rightarrow> string" where
  "execNotice command =
     I_WARN @ ''  **VM Command Execution Requires Elevated Permissions**\<newline>\<newline>''
     @ ''To execute commands on VMs, set `PROXMOX_ALLOW_ELEVATED=true` in your .env file ''
     @ ''and ensure your API token has appropriate VM permissions.\<newline>\<newline>''
     @ ''**Current permissions**: Basic (VM listing only)\<newline>''
     @ ''**Requested command**: `'' @ command @ ''`''"

definition execFailure :: "string \<Rightarrow> string \<Rightarrow> string" where
  "execFailure vmid msg =
     I_CROSS @ '' **Failed to execute command on VM '' @ vmid @ ''**\<newline>\<newline>''
     @ ''Error: '' @ msg @ ''\<newline>\<newline>''
     @ ''*Note: Make sure the VM has guest agent installed and running*''"

definition qemuAccepted :: "string \<Rightarrow> string \<Rightarrow> string \<Rightarrow> string" where
  "qemuAccepted vmid command pid =
     I_LAPTOP @ '' **Command executed on VM '' @ vmid @ ''**\<newline>\<newline>''
     @ ''**Command**: `'' @ command @ ''`\<newline>''
     @ ''**Result**: Command submitted to guest agent\<newline>''
     @ ''**PID**: '' @ pid @ ''\<newline>\<newline>''
     @ ''*Note: Use guest agent status to check command completion*''"

definition lxcOutput :: "string \<Rightarrow> string \<Rightarrow> string \<Rightarrow> string" where
  "lxcOutput vmid command result =
     I_BOX @ '' **Command executed on LXC '' @ vmid @ ''**\<newline>\<newline>''
     @ ''**Command**: `'' @ command @ ''`\<newline>''
     @ ''**Output**:\<newline>```\<newline>''
     @ result @ ''\<newline>```''"

text \<open>
  \<^verbatim>\<open>executeVMCommand(node, vmid, command, type = 'qemu')\<close>. The endpoint is built
  inside the \<^verbatim>\<open>try\<close>, before the request; the lines of the answer are built after it,
  \<^verbatim>\<open>vmid\<close> first, then \<^verbatim>\<open>command\<close>, then \<^verbatim>\<open>result.pid || 'N/A'\<close>. The
  \<^verbatim>\<open>catch\<close> converts \<^verbatim>\<open>vmid\<close> once more, outside any \<^verbatim>\<open>try\<close>.
\<close>

definition executeVMCommand :: "config \<Rightarrow> backend \<Rightarrow> jsval \<Rightarrow> jsval \<Rightarrow> jsval \<Rightarrow> jsval \<Rightarrow> jsval io" where
  "executeVMCommand cfg be node vmid command type0 =
     (let type = (if type0 = JUndefined then JStr ''qemu'' else type0)
      in if \<not> allowElevated cfg
         then bindIO (liftE (toStr command)) (\<lambda>c. returnIO (textContent (execNotice c)))
         else catchIO
                (if type = JStr ''qemu''
                 then bindIO (liftE (toStr node)) (\<lambda>n.
                      bindIO (liftE (toStr vmid)) (\<lambda>v.
                      bindIO (proxmoxRequest be (''/nodes/'' @ n @ ''/qemu/'' @ v @ ''/agent/exec'')
                                ''POST'' (JObj [(''command'', command)])) (\<lambda>result.
                      bindIO (liftE (toStr command)) (\<lambda>c.
                      bindIO (liftE (getProp result ''pid'')) (\<lambda>pid.
                      bindIO (liftE (toStr (orElse pid (JStr ''N/A'')))) (\<lambda>p.
                      returnIO (textContent (qemuAccepted v c p))))))))
                 else bindIO (liftE (toStr node)) (\<lambda>n.
                      bindIO (liftE (toStr vmid)) (\<lambda>v.
                      bindIO (proxmoxRequest be (''/nodes/'' @ n @ ''/lxc/'' @ v @ ''/exec'')
                                ''POST'' (JObj [(''command'', command)])) (\<lambda>result.
                      bindIO (liftE (toStr command)) (\<lambda>c.
                      bindIO (liftE (toStr (orElse result (JStr ''Command executed successfully'')))) (\<lambda>r.
                      returnIO (textContent (lxcOutput v c r))))))))
                (\<lambda>e. bindIO (liftE (toStr vmid)) (\<lambda>v. returnIO (textContent (execFailure v (message e))))))"

text \<open>\<^verbatim>\<open>storage => ({ ...storage, node: n })\<close>.\<close>

definition tagStorage :: "jsval \<Rightarrow> jsval \<Rightarrow> jsval" where
  "tagStorage n st = JObj (setProp ''node'' n (spread st))"

definition getStorage_node :: "backend \<Rightarrow> jsval \<Rightarrow> jsval list \<Rightarrow> jsval list io" where
  "getStorage_node be node storages =
     bindIO (liftE (getProp node ''node'')) (\<lambda>nn.
     bindIO (liftE (toStr nn)) (\<lambda>n.
     bindIO (proxmoxRequest be (''/nodes/'' @ n @ ''/storage'') ''GET'' JNull) (\<lambda>nodeStorages.
     bindIO (liftE (asArray ''nodeStorages'' ''map'' nodeStorages)) (\<lambda>xs.
     returnIO (storages @ map (tagStorage nn) xs)))))"

definition getStorage_collect :: "backend \<Rightarrow> jsval \<Rightarrow> jsval list io" where
  "getStorage_collect be nodeFilter =
     (if truthy nodeFilter
      then bindIO (liftE (toStr nodeFilter)) (\<lambda>n.
           bindIO (proxmoxRequest be (''/nodes/'' @ n @ ''/storage'') ''GET'' JNull) (\<lambda>storages.
           bindIO (liftE (asArray ''storages'' ''map'' storages)) (\<lambda>xs.
           returnIO (map (tagStorage nodeFilter) xs))))
      else bindIO (proxmoxRequest be ''/nodes'' ''GET'' JNull) (\<lambda>nodes.
           bindIO (liftE (forOf ''nodes'' nodes)) (\<lambda>ns.
           forEachIO (getStorage_node be) ns [])))"

text \<open>The loop that keeps the first storage of every key \<^verbatim>\<open>${storage.storage}-${storage.node}\<close>.\<close>

definition storageKey :: "jsval \<Rightarrow> jserror + string" where
  "storageKey st = bindE (getProp st ''storage'') (\<lambda>s. tmpl [Val s, Lit ''-'', Val (propOf st ''node'')])"

fun uniqueStorages :: "string list \<Rightarrow> jsval list \<Rightarrow> jserror + jsval list" where
  "uniqueStorages seen [] = Inr []"
| "uniqueStorages seen (st # sts) =
     (case storageKey st of
        Inl e \<Rightarrow> Inl e
      | Inr key \<Rightarrow>
          if key \<in> set seen then uniqueStorages seen sts
          else (case uniqueStorages (key # seen) sts of Inl e \<Rightarrow> Inl e | Inr r \<Rightarrow> Inr (st # r)))"

text \<open>The body of the rendering loop of \<^verbatim>\<open>getStorage\<close>.\<close>

definition storageBlock :: "jsenv \<Rightarrow> jsval \<Rightarrow> jserror + string" where
  "storageBlock E st =
     bindE (getProp st ''enabled'') (\<lambda>enabled.
     bindE (if truthy (propOf st ''total'') \<and> truthy (propOf st ''used'')
            then ratioOf E (propOf st ''used'') (propOf st ''total'') else Inr ''N/A'') (\<lambda>usagePercent.
     tmpl ([Lit (if truthy enabled then I_GREEN else I_RED), Lit '' **'', Val (propOf st ''storage''), Lit ''**\<newline>'',
            Lit (''   '' @ I_BULLET @ '' Node: ''), Val (propOf st ''node''), Lit ''\<newline>'',
            Lit (''   '' @ I_BULLET @ '' Type: ''), Val (orElse (propOf st ''type'') (JStr ''N/A'')), Lit ''\<newline>'',
            Lit (''   '' @ I_BULLET @ '' Content: ''), Val (orElse (propOf st ''content'') (JStr ''N/A'')), Lit ''\<newline>'']
           @ (if truthy (propOf st ''total'') \<and> truthy (propOf st ''used'')
              then [Lit (''   '' @ I_BULLET @ '' Usage: ''), Sub (formatBytes E (propOf st ''used'')), Lit '' / '',
                    Sub (formatBytes E (propOf st ''total'')), Lit ('' ('' @ usagePercent @ ''%)\<newline>'')]
              else [])
           @ [Lit (''   '' @ I_BULLET @ '' Status: '' @ (if truthy enabled then ''Enabled'' else ''Disabled'')
                   @ ''\<newline>\<newline>'')])))"

definition storageText :: "jsenv \<Rightarrow> jsval list \<Rightarrow> jserror + string" where
  "storageText E storages =
     (if storages = [] then Inr (I_DISK @ '' **Storage Pools**\<newline>\<newline>'' @ ''No storage found.\<newline>'')
      else bindE (uniqueStorages [] storages) (\<lambda>unique.
           bindE (sortByName E ''storage'' unique) (\<lambda>ordered.
           bindE (mapE (storageBlock E) ordered) (\<lambda>blocks.
           Inr (I_DISK @ '' **Storage Pools**\<newline>\<newline>'' @ concat blocks)))))"

text \<open>\<^verbatim>\<open>getStorage(nodeFilter = null)\<close>.\<close>

definition getStorage :: "jsenv \<Rightarrow> backend \<Rightarrow> jsval \<Rightarrow> jsval io" where
  "getStorage E be nodeFilter0 =
     (let nodeFilter = (if nodeFilter0 = JUndefined then JNull else nodeFilter0)
      in bindIO (getStorage_collect be nodeFilter) (\<lambda>storages.
           liftE (bindE (storageText E storages) (\<lambda>out. Inr (textContent out)))))"

definition nodeDetail :: "jsval \<Rightarrow> jserror + string" where
  "nodeDetail node =
     bindE (getProp node ''status'') (\<lambda>st.
     tmpl [Lit (if st = JStr ''online'' then I_GREEN else I_RED), Lit '' '', Val (propOf node ''node''),
           Lit '' - '', Val st, Lit ''\<newline>''])"

text \<open>
  The text of \<^verbatim>\<open>getClusterStatus\<close> from the node list: the count of the nodes that are
  online, the resource summary of elevated mode, then the nodes sorted by name.
\<close>

definition clusterText :: "config \<Rightarrow> jsenv \<Rightarrow> jsval \<Rightarrow> jserror + string" where
  "clusterText cfg E nodes =
     bindE (asArray ''nodes'' ''filter'' nodes) (\<lambda>ns.
     bindE (mapE (\<lambda>n. getProp n ''status'') ns) (\<lambda>sts.
     bindE (if allowElevated cfg then tmpl [Lit ''**Resource Usage**:\<newline>'', Sub (resourceUsage E ns)]
            else Inr (I_WARN @ ''  **Limited Information**: Resource usage requires elevated permissions\<newline>\<newline>'')) (\<lambda>usage.
     bindE (sortByName E ''node'' ns) (\<lambda>ordered.
     bindE (mapE nodeDetail ordered) (\<lambda>details.
       (let onlineNodes = length (filter (\<lambda>st. st = JStr ''online'') sts);
            totalNodes = length ns
        in Inr (I_CRANE @ ''  **Proxmox Cluster Status**\<newline>\<newline>''
                @ ''**Cluster Health**: ''
                @ (if onlineNodes = totalNodes then I_GREEN @ '' Healthy'' else I_YELLOW @ '' Warning'')
                @ ''\<newline>''
                @ ''**Nodes**: '' @ decNat onlineNodes @ ''/'' @ decNat totalNodes @ '' online\<newline>\<newline>''
                @ usage
                @ ''**Node Details**:\<newline>''
                @ concat details)))))))"

text \<open>\<^verbatim>\<open>getClusterStatus\<close>: the whole method is one \<^verbatim>\<open>try\<close>; the cluster-status
  request of elevated mode is issued, its result is not used and its failure is ignored.\<close>

definition getClusterStatus :: "config \<Rightarrow> jsenv \<Rightarrow> backend \<Rightarrow> jsval io" where
  "getClusterStatus cfg E be =
     catchIO
       (bindIO (proxmoxRequest be ''/nodes'' ''GET'' JNull) (\<lambda>nodes.
        bindIO (if allowElevated cfg
                then catchIO (proxmoxRequest be ''/cluster/status'' ''GET'' JNull) (\<lambda>e. returnIO JNull)
                else returnIO JNull) (\<lambda>clusterStatus.
        liftE (bindE (clusterText cfg E nodes) (\<lambda>out. Inr (textContent out))))))
       (\<lambda>e. returnIO (textContent (I_CROSS @ '' **Failed to get cluster status**\<newline>\<newline>Error: '' @ message e)))"

text \<open>The seven descriptors that the \<^verbatim>\<open>ListToolsRequestSchema\<close> handler returns.\<close>

definition strProp :: "string \<Rightarrow> string \<Rightarrow> string \<times> jsval" where
  "strProp k d = (k, JObj [(''type'', JStr ''string''), (''description'', JStr d)])"

definition enumProp :: "string \<Rightarrow> string list \<Rightarrow> string \<Rightarrow> string \<Rightarrow> string \<times> jsval" where
  "enumProp k vs d dflt =
     (k, JObj [(''type'', JStr ''string''), (''enum'', JArr (map JStr vs)), (''description'', JStr d),
               (''default'', JStr dflt)])"

definition toolDescriptor :: "string \<Rightarrow> string \<Rightarrow> (string \<times> jsval) list \<Rightarrow> string list option \<Rightarrow> jsval" where
  "toolDescriptor n d props req =
     JObj [(''name'', JStr n), (''description'', JStr d),
           (''inputSchema'',
            JObj ([(''type'', JStr ''object''), (''properties'', JObj props)]
                  @ (case req of None \<Rightarrow> [] | Some rs \<Rightarrow> [(''required'', JArr (map JStr rs))])))]"

definition listTools :: jsval where
  "listTools =
     JObj [(''tools'', JArr
       [toolDescriptor ''proxmox_get_nodes''
          ''List all Proxmox cluster nodes with their status and resources'' [] None,
        toolDescriptor ''proxmox_get_node_status''
          ''Get detailed status information for a specific Proxmox node''
          [strProp ''node'' ''Node name (e.g., pve1, proxmox-node2)'']
          (Some [''node'']),
        toolDescriptor ''proxmox_get_vms''
          ''List all virtual machines across the cluster with their status''
          [strProp ''node'' ''Optional: filter by specific node'',
           enumProp ''type'' [''qemu'', ''lxc'', ''all''] ''VM type filter'' ''all'']
          None,
        toolDescriptor ''proxmox_get_vm_status''
          ''Get detailed status information for a specific VM''
          [strProp ''node'' ''Node name where VM is located'',
           strProp ''vmid'' ''VM ID number'',
           enumProp ''type'' [''qemu'', ''lxc''] ''VM type'' ''qemu'']
          (Some [''node'', ''vmid'']),
        toolDescriptor ''proxmox_execute_vm_command''
          ''Execute a shell command on a virtual machine via Proxmox API''
          [strProp ''node'' ''Node name where VM is located'',
           strProp ''vmid'' ''VM ID number'',
           strProp ''command'' ''Shell command to execute'',
           enumProp ''type'' [''qemu'', ''lxc''] ''VM type'' ''qemu'']
          (Some [''node'', ''vmid'', ''command'']),
        toolDescriptor ''proxmox_get_storage''
          ''List all storage pools and their usage across the cluster''
          [strProp ''node'' ''Optional: filter by specific node'']
          None,
        toolDescriptor ''proxmox_get_cluster_status''
          ''Get overall cluster status including nodes and resource usage'' [] None])]"

text \<open>The names a tool list reports, in order.\<close>

definition toolNames :: "jsval \<Rightarrow> string list" where
  "toolNames r = (case propOf r ''tools'' of JArr ts \<Rightarrow> map (nameOf ''name'') ts | _ \<Rightarrow> [])"

text \<open>
  The \<^verbatim>\<open>switch\<close> of the \<^verbatim>\<open>CallToolRequestSchema\<close> handler, inside its \<^verbatim>\<open>try\<close>:
  \<open>name\<close> and \<open>args\<close> are \<^verbatim>\<open>request.params.name\<close> and
  \<^verbatim>\<open>request.params.arguments\<close>. Reading the first argument throws when \<open>args\<close> is
  absent.
\<close>

definition dispatch :: "config \<Rightarrow> jsenv \<Rightarrow> backend \<Rightarrow> jsval \<Rightarrow> jsval \<Rightarrow> jsval io" where
  "dispatch cfg E be name args =
     (if name = JStr ''proxmox_get_nodes'' then getNodes E be
      else if name = JStr ''proxmox_get_node_status''
      then bindIO (liftE (getProp args ''node'')) (\<lambda>node. getNodeStatus cfg E be node)
      else if name = JStr ''proxmox_get_vms''
      then bindIO (liftE (getProp args ''node'')) (\<lambda>node. getVMs E be node (propOf args ''type''))
      else if name = JStr ''proxmox_get_vm_status''
      then bindIO (liftE (getProp args ''node'')) (\<lambda>node.
             getVMStatus E be node (propOf args ''vmid'') (propOf args ''type''))
      else if name = JStr ''proxmox_execute_vm_command''
      then bindIO (liftE (getProp args ''node'')) (\<lambda>node.
             executeVMCommand cfg be node (propOf args ''vmid'') (propOf args ''command'') (propOf args ''type''))
      else if name = JStr ''proxmox_get_storage''
      then bindIO (liftE (getProp args ''node'')) (\<lambda>node. getStorage E be node)
      else if name = JStr ''proxmox_get_cluster_status'' then getClusterStatus cfg E be
      else bindIO (liftE (toStr name)) (\<lambda>n. throwIO (Error (''Unknown tool: '' @ n))))"

text \<open>
  The \<^verbatim>\<open>CallToolRequestSchema\<close> handler: whatever the \<^verbatim>\<open>switch\<close> throws becomes a
  text result. \<open>Inl\<close> in the handler's value would be an exception that reaches the
  transport.
\<close>

definition callTool :: "config \<Rightarrow> jsenv \<Rightarrow> backend \<Rightarrow> jsval \<Rightarrow> jsval \<Rightarrow> jsval io" where
  "callTool cfg E be name args =
     catchIO (dispatch cfg E be name args) (\<lambda>e. returnIO (textContent (''Error: '' @ message e)))"

section \<open>The MCP-over-HTTP server\<close>

text \<open>The icon literals of the HTTP server, as the UTF-8 bytes of its source file.\<close>

definition U_SERVER :: string where
  "U_SERVER = [CHR 0xF0, CHR 0x9F, CHR 0x96, CHR 0xA5, CHR 0xEF, CHR 0xB8, CHR 0x8F]"

definition U_GREEN :: string where
  "U_GREEN = [CHR 0xF0, CHR 0x9F, CHR 0x9F, CHR 0xA2]"

definition U_RED :: string where
  "U_RED = [CHR 0xF0, CHR 0x9F, CHR 0x94, CHR 0xB4]"

definition U_YELLOW :: string where
  "U_YELLOW = [CHR 0xF0, CHR 0x9F, CHR 0x9F, CHR 0xA1]"

definition U_BULLET :: string where
  "U_BULLET = [CHR 0xE2, CHR 0x80, CHR 0xA2]"

definition U_LAPTOP :: string where
  "U_LAPTOP = [CHR 0xF0, CHR 0x9F, CHR 0x92, CHR 0xBB]"

definition U_BOX :: string where
  "U_BOX = [CHR 0xF0, CHR 0x9F, CHR 0x93, CHR 0xA6]"

definition U_CRANE :: string where
  "U_CRANE = [CHR 0xF0, CHR 0x9F, CHR 0x8F, CHR 0x97, CHR 0xEF, CHR 0xB8, CHR 0x8F]"

text \<open>
  The key of \<^verbatim>\<open>(a, b) => a.vmid - b.vmid\<close>: the number of the \<^verbatim>\<open>vmid\<close> when it is
  a number of the model or a string of decimal digits that a double holds exactly.
\<close>

definition allDigits :: "string \<Rightarrow> bool" where
  "allDigits ds = (ds \<noteq> [] \<and> list_all (\<lambda>c. decVal c \<noteq> None) ds)"

definition numberKey :: "jsval \<Rightarrow> int option" where
  "numberKey vm =
     (case propOf vm ''vmid'' of
        JNum n \<Rightarrow> Some (sint n)
      | JStr s \<Rightarrow>
          (if allDigits s
           then (case readDigits 10 decVal s None of
                   Some n \<Rightarrow> if exact (int n) then Some (int n) else None
                 | None \<Rightarrow> None)
           else None)
      | _ \<Rightarrow> None)"

text \<open>\<open>a !== b\<close> is the negation of strict equality: two parsed objects or arrays are
  never the same object.\<close>

definition strictEq :: "jsval \<Rightarrow> jsval \<Rightarrow> bool" where
  "strictEq a b = (case a of JArr xs \<Rightarrow> False | JObj kvs \<Rightarrow> False | _ \<Rightarrow> a = b)"

text \<open>
  \<^verbatim>\<open>proxmoxRequest(endpoint)\<close> of the HTTP server: always a \<^verbatim>\<open>GET\<close>; errors are
  not wrapped. A rejected \<^verbatim>\<open>fetch\<close> and a body that \<^verbatim>\<open>response.json()\<close> cannot
  parse throw the library's own errors, of which the server reads the message only.
\<close>

definition http_proxmoxRequest :: "jsenv \<Rightarrow> backend \<Rightarrow> string \<Rightarrow> jsval io" where
  "http_proxmoxRequest E be ep =
     (let rq = \<lparr>endpoint = ep, httpMethod = ''GET'', body = JUndefined\<rparr> in
      ([rq],
       case be rq of
         NetErr msg \<Rightarrow> Inl (JSError ''FetchError'' msg)
       | HttpErr st stText txt \<Rightarrow> Inl (Error (''Proxmox API error: '' @ decNat st @ '' '' @ stText))
       | Blank \<Rightarrow> Inl (JSError ''FetchError'' (blankBody E))
       | BadJson msg \<Rightarrow> Inl (JSError ''FetchError'' msg)
       | Json d \<Rightarrow> getProp d ''data''))"

text \<open>The body of the loop of \<^verbatim>\<open>getNodes\<close>: the constants of one node, then its lines.\<close>

definition http_nodeBlock :: "jsenv \<Rightarrow> jsval \<Rightarrow> jserror + string" where
  "http_nodeBlock E node =
     bindE (getProp node ''status'') (\<lambda>st.
     bindE (formatUptime E (propOf node ''uptime'')) (\<lambda>uptime.
     bindE (percentOf E (propOf node ''cpu'')) (\<lambda>cpuPercent.
     bindE (formatBytes E (propOf node ''mem'')) (\<lambda>memoryUsed.
     bindE (formatBytes E (propOf node ''maxmem'')) (\<lambda>memoryTotal.
     bindE (ratioOf E (propOf node ''mem'') (propOf node ''maxmem'')) (\<lambda>memoryPercent.
     tmpl [Lit (if st = JStr ''online'' then U_GREEN else U_RED), Lit '' **'', Val (propOf node ''node''), Lit ''**\<newline>'',
           Lit (''   '' @ U_BULLET @ '' Status: ''), Val st, Lit ''\<newline>'',
           Lit (''   '' @ U_BULLET @ '' Uptime: '' @ uptime @ ''\<newline>''),
           Lit (''   '' @ U_BULLET @ '' CPU: '' @ cpuPercent @ ''%\<newline>''),
           Lit (''   '' @ U_BULLET @ '' Memory: '' @ memoryUsed @ '' / '' @ memoryTotal @ '' ('' @ memoryPercent @ ''%)\<newline>''),
           Lit (''   '' @ U_BULLET @ '' Load: ''),
           (if truthy (propOf node ''loadavg'') then Val (index0 (propOf node ''loadavg'')) else Lit ''N/A''),
           Lit ''\<newline>\<newline>'']))))))"

definition http_getNodes :: "jsenv \<Rightarrow> backend \<Rightarrow> string io" where
  "http_getNodes E be =
     bindIO (http_proxmoxRequest E be ''/nodes'') (\<lambda>nodes.
       liftE (bindE (forOf ''nodes'' nodes) (\<lambda>ns.
              bindE (mapE (http_nodeBlock E) ns) (\<lambda>blocks.
              Inr (U_SERVER @ ''  **Proxmox Cluster Nodes**\<newline>\<newline>'' @ concat blocks)))))"

text \<open>
  The \<^verbatim>\<open>catch\<close> of the loop of \<^verbatim>\<open>getVMs\<close>: it only logs, and the log line converts
  \<^verbatim>\<open>node.node\<close> again.
\<close>

definition http_warn :: "jsval \<Rightarrow> jsval list \<Rightarrow> jsval list io" where
  "http_warn node vms =
     bindIO (liftE (getProp node ''node'')) (\<lambda>nn.
     bindIO (liftE (toStr nn)) (\<lambda>n. returnIO vms))"

text \<open>One request of the loop and the push of its tagged result.\<close>

definition http_fetchKind :: "jsenv \<Rightarrow> backend \<Rightarrow> string \<Rightarrow> jsval \<Rightarrow> jsval list \<Rightarrow> jsval list io" where
  "http_fetchKind E be kind node vms =
     bindIO (liftE (getProp node ''node'')) (\<lambda>nn.
     bindIO (liftE (toStr nn)) (\<lambda>n.
     bindIO (http_proxmoxRequest E be (''/nodes/'' @ n @ ''/'' @ kind)) (\<lambda>res.
     bindIO (liftE (asArray (kind @ ''VMs'') ''map'' res)) (\<lambda>xs.
     returnIO (vms @ map (tagVM kind nn) xs)))))"

text \<open>
  The body of the loop of \<^verbatim>\<open>getVMs\<close>. One \<^verbatim>\<open>try\<close> holds both requests of a node:
  when the first throws the second is not made, and what the first pushed stays when the
  second throws.
\<close>

definition http_getVMs_node :: "jsenv \<Rightarrow> backend \<Rightarrow> jsval \<Rightarrow> jsval \<Rightarrow> jsval \<Rightarrow> jsval list \<Rightarrow> jsval list io" where
  "http_getVMs_node E be nodeFilter typeFilter node vms =
     bindIO (if truthy nodeFilter
             then bindIO (liftE (getProp node ''node'')) (\<lambda>nn. returnIO (\<not> strictEq nn nodeFilter))
             else returnIO False) (\<lambda>skip.
       if skip then returnIO vms
       else (case (if wantsQemu typeFilter then http_fetchKind E be ''qemu'' node vms else returnIO vms) of
               (tr1, Inl e) \<Rightarrow> bindIO (tr1, Inr vms) (http_warn node)
             | (tr1, Inr vms1) \<Rightarrow>
                 (case (if wantsLxc typeFilter then http_fetchKind E be ''lxc'' node vms1 else returnIO vms1) of
                    (tr2, Inl e) \<Rightarrow> bindIO (tr1 @ tr2, Inr vms1) (http_warn node)
                  | (tr2, Inr vms2) \<Rightarrow> (tr1 @ tr2, Inr vms2))))"

text \<open>The body of the rendering loop of \<^verbatim>\<open>getVMs\<close>.\<close>

definition http_vmBlock :: "jsenv \<Rightarrow> jsval \<Rightarrow> jserror + string" where
  "http_vmBlock E vm =
     bindE (getProp vm ''status'') (\<lambda>st.
     tmpl ([Lit (if st = JStr ''running'' then U_GREEN else U_RED), Lit '' '',
            Lit (if propOf vm ''type'' = JStr ''qemu'' then U_SERVER else U_BOX), Lit '' **'',
            Val (propOf vm ''name''), Lit ''** (ID: '', Val (propOf vm ''vmid''), Lit '')\<newline>'',
            Lit (''   '' @ U_BULLET @ '' Node: ''), Val (propOf vm ''node''), Lit ''\<newline>'',
            Lit (''   '' @ U_BULLET @ '' Status: ''), Val st, Lit ''\<newline>'',
            Lit (''   '' @ U_BULLET @ '' Type: ''), Sub (upperOf E ''vm.type'' (propOf vm ''type'')), Lit ''\<newline>'']
           @ (if st = JStr ''running''
              then (if truthy (propOf vm ''uptime'')
                    then [Lit (''   '' @ U_BULLET @ '' Uptime: ''), Sub (formatUptime E (propOf vm ''uptime'')), Lit ''\<newline>'']
                    else [])
                   @ (if propOf vm ''cpu'' \<noteq> JUndefined
                      then [Lit (''   '' @ U_BULLET @ '' CPU: ''),
                            Sub (if truthy (propOf vm ''cpu'') then tmpl [Sub (percentOf E (propOf vm ''cpu'')), Lit ''%'']
                                 else Inr ''N/A''),
                            Lit ''\<newline>'']
                      else [])
                   @ (if truthy (propOf vm ''mem'') \<and> truthy (propOf vm ''maxmem'')
                      then [Lit (''   '' @ U_BULLET @ '' Memory: ''), Sub (formatBytes E (propOf vm ''mem'')), Lit '' / '',
                            Sub (formatBytes E (propOf vm ''maxmem'')), Lit ''\<newline>'']
                      else [])
              else [])
           @ [Lit ''\<newline>'']))"

text \<open>\<^verbatim>\<open>getVMs(nodeFilter = null, typeFilter = 'all')\<close> of the HTTP server.\<close>

definition http_getVMs :: "jsenv \<Rightarrow> backend \<Rightarrow> jsval \<Rightarrow> jsval \<Rightarrow> string io" where
  "http_getVMs E be nodeFilter0 typeFilter0 =
     (let nodeFilter = (if nodeFilter0 = JUndefined then JNull else nodeFilter0);
          typeFilter = (if typeFilter0 = JUndefined then JStr ''all'' else typeFilter0)
      in bindIO (http_proxmoxRequest E be ''/nodes'') (\<lambda>nodes.
         bindIO (liftE (forOf ''nodes'' nodes)) (\<lambda>ns.
         bindIO (forEachIO (http_getVMs_node E be nodeFilter typeFilter) ns []) (\<lambda>allVMs.
         liftE (bindE (sortByNumber E ''a.vmid - b.vmid'' numberKey allVMs) (\<lambda>ordered.
                bindE (mapE (http_vmBlock E) ordered) (\<lambda>blocks.
                Inr (U_LAPTOP @ '' **Virtual Machines**\<newline>\<newline>'' @ concat blocks))))))))"

definition http_nodeDetail :: "jsval \<Rightarrow> jserror + string" where
  "http_nodeDetail node =
     bindE (getProp node ''status'') (\<lambda>st.
     tmpl [Lit (if st = JStr ''online'' then U_GREEN else U_RED), Lit '' '', Val (propOf node ''node''),
           Lit '': '', Val st, Lit ''\<newline>''])"

definition http_clusterText :: "jsenv \<Rightarrow> jsval \<Rightarrow> jserror + string" where
  "http_clusterText E nodes =
     bindE (asArray ''nodes'' ''filter'' nodes) (\<lambda>ns.
     bindE (mapE (\<lambda>n. getProp n ''status'') ns) (\<lambda>sts.
     bindE (resourceUsage E ns) (\<lambda>usage.
     bindE (mapE http_nodeDetail ns) (\<lambda>details.
       (let onlineNodes = length (filter (\<lambda>st. st = JStr ''online'') sts);
            totalNodes = length ns
        in Inr (U_CRANE @ ''  **Proxmox Cluster Status**\<newline>\<newline>''
                @ ''**Cluster Health**: ''
                @ (if onlineNodes = totalNodes then U_GREEN @ '' Healthy'' else U_YELLOW @ '' Degraded'')
                @ ''\<newline>''
                @ ''**Nodes**: '' @ decNat onlineNodes @ ''/'' @ decNat totalNodes @ '' online\<newline>\<newline>''
                @ ''**Resource Usage**:\<newline>'' @ usage
                @ ''**Node Details**:\<newline>''
                @ concat details))))))"

definition http_getClusterStatus :: "jsenv \<Rightarrow> backend \<Rightarrow> string io" where
  "http_getClusterStatus E be =
     bindIO (http_proxmoxRequest E be ''/nodes'') (\<lambda>nodes.
     bindIO (http_proxmoxRequest E be ''/cluster/status'') (\<lambda>cluster.
     liftE (http_clusterText E nodes)))"

text \<open>
  A JSON-RPC response: \<^verbatim>\<open>{ jsonrpc: '2.0', result, id }\<close> or
  \<^verbatim>\<open>{ jsonrpc: '2.0', error: { code, message, data }, id }\<close>. An \<open>id\<close> that is
  \<open>JUndefined\<close> is left out when the response is serialized.
\<close>

datatype envelope =
    Success (rid: jsval) (result: jsval)
  | Failure (rid: jsval) (code: int) (errmsg: string) (errdata: jsval)

definition handleInitialize :: "jsval \<Rightarrow> envelope" where
  "handleInitialize request =
     Success (propOf request ''id'')
       (JObj [(''protocolVersion'', JStr ''2024-11-05''),
              (''capabilities'', JObj [(''tools'', JObj [])]),
              (''serverInfo'', JObj [(''name'', JStr ''proxmox-mcp-server''), (''version'', JStr ''1.0.0'')])])"

definition http_toolDescriptor :: "string \<Rightarrow> string \<Rightarrow> (string \<times> jsval) list \<Rightarrow> jsval" where
  "http_toolDescriptor n d props =
     JObj [(''name'', JStr n), (''description'', JStr d),
           (''inputSchema'', JObj [(''type'', JStr ''object''), (''properties'', JObj props), (''required'', JArr [])])]"

definition handleToolsList :: "jsval \<Rightarrow> envelope" where
  "handleToolsList request =
     Success (propOf request ''id'')
       (JObj [(''tools'', JArr
          [http_toolDescriptor ''proxmox_get_nodes''
             ''List all Proxmox cluster nodes with their status and resource usage'' [],
           http_toolDescriptor ''proxmox_get_vms''
             ''List all virtual machines across the cluster''
             [strProp ''node'' ''Filter by specific node (optional)'',
              (''type'', JObj [(''type'', JStr ''string''), (''enum'', JArr (map JStr [''qemu'', ''lxc'', ''all''])),
                               (''description'', JStr ''Filter by VM type (optional)'')])],
           http_toolDescriptor ''proxmox_get_cluster_status''
             ''Get overall cluster status including nodes and resource usage'' []])])"

text \<open>
  \<^verbatim>\<open>handleToolCall\<close>. The destructuring of \<^verbatim>\<open>request.params\<close> stands before the
  \<^verbatim>\<open>try\<close>; everything the \<^verbatim>\<open>switch\<close> throws becomes a JSON-RPC error.
\<close>

definition http_dispatch :: "jsenv \<Rightarrow> backend \<Rightarrow> jsval \<Rightarrow> jsval \<Rightarrow> string io" where
  "http_dispatch E be name args =
     (if name = JStr ''proxmox_get_nodes'' then http_getNodes E be
      else if name = JStr ''proxmox_get_vms'' then http_getVMs E be (optProp args ''node'') (optProp args ''type'')
      else if name = JStr ''proxmox_get_cluster_status'' then http_getClusterStatus E be
      else bindIO (liftE (toStr name)) (\<lambda>n. throwIO (Error (''Unknown tool: '' @ n))))"

definition handleToolCall :: "jsenv \<Rightarrow> backend \<Rightarrow> jsval \<Rightarrow> envelope io" where
  "handleToolCall E be request =
     (if nullish (propOf request ''params'')
      then throwIO (TypeError (''Cannot destructure property '' @ [CHR 0x27] @ ''name'' @ [CHR 0x27] @ '' of ''
                               @ [CHR 0x27] @ ''request.params'' @ [CHR 0x27] @ '' as it is ''
                               @ typeName (propOf request ''params'') @ ''.''))
      else catchIO
             (bindIO (http_dispatch E be (propOf (propOf request ''params'') ''name'')
                        (propOf (propOf request ''params'') ''arguments'')) (\<lambda>res.
                returnIO (Success (propOf request ''id'') (textContent res))))
             (\<lambda>e. returnIO (Failure (propOf request ''id'') (- 32603) ''Tool execution failed'' (JStr (message e)))))"

text \<open>
  \<^verbatim>\<open>handleMCPRequest\<close>: the log line reads \<^verbatim>\<open>request.method\<close>, which throws when
  there is no request, and converts it, before the \<^verbatim>\<open>switch\<close>.
\<close>

definition handleMCPRequest :: "jsenv \<Rightarrow> backend \<Rightarrow> jsval \<Rightarrow> envelope io" where
  "handleMCPRequest E be request =
     bindIO (liftE (getProp request ''method'')) (\<lambda>method.
     bindIO (liftE (toStr method)) (\<lambda>m.
       if method = JStr ''initialize'' then returnIO (handleInitialize request)
       else if method = JStr ''tools/list'' then returnIO (handleToolsList request)
       else if method = JStr ''tools/call'' then handleToolCall E be request
       else returnIO (Failure (propOf request ''id'') (- 32601) ''Method not found''
                        (JStr (''Unknown method: '' @ m)))))"

text \<open>
  The \<^verbatim>\<open>POST /\<close> route of \<^verbatim>\<open>setupMCPEndpoint\<close>: the envelope of the dispatcher with
  status 200, or, when the dispatcher throws, status 500 with an error envelope whose
  id is \<^verbatim>\<open>req.body?.id || null\<close>.
\<close>

record http_reply =
  status :: nat
  payload :: envelope

definition setupMCPEndpoint :: "jsenv \<Rightarrow> backend \<Rightarrow> jsval \<Rightarrow> request list \<times> http_reply" where
  "setupMCPEndpoint E be reqBody =
     (case handleMCPRequest E be reqBody of
        (tr, Inr response) \<Rightarrow> (tr, \<lparr>status = 200, payload = response\<rparr>)
      | (tr, Inl e) \<Rightarrow>
          (tr, \<lparr>status = 500,
                payload = Failure (orElse (optProp reqBody ''id'') JNull) (- 32603) ''Internal error''
                            (JStr (message e))\<rparr>))"

section \<open>Auxiliary notions for the statements\<close>

text \<open>A computation whose value, when it has one, is a single-text tool result.\<close>

definition textual :: "jsval io \<Rightarrow> bool" where
  "textual m = (\<forall>r. snd m = Inr r \<longrightarrow> (\<exists>t. r = textContent t))"

text \<open>A comparison of strings byte by byte, as a collation for examples.\<close>

fun compareBytes :: "string \<Rightarrow> string \<Rightarrow> int" where
  "compareBytes [] [] = 0"
| "compareBytes [] (y # ys) = - 1"
| "compareBytes (x # xs) [] = 1"
| "compareBytes (x # xs) (y # ys) =
     (if (of_char x :: nat) < of_char y then - 1
      else if (of_char y :: nat) < of_char x then 1
      else compareBytes xs ys)"

text \<open>An environment for evaluating examples; no statement depends on its choice.\<close>

definition sampleEnv :: jsenv where
  "sampleEnv =
     \<lparr>formatUptime = (\<lambda>v. tmpl [Val v, Lit ''s'']), formatBytes = (\<lambda>v. tmpl [Val v, Lit '' B'']),
      percentOf = (\<lambda>v. toStr v), ratioOf = (\<lambda>a b. tmpl [Val a, Lit ''/'', Val b]),
      resourceUsage = (\<lambda>ns. Inr []), localeCompare = compareBytes, upperCase = (\<lambda>s. s),
      engineSort = (\<lambda>cmp xs. Inr xs), blankBody = ''Unexpected end of JSON input''\<rparr>"


text \<open>
  The comparison the specification asks for between the two bindings of one logical
  call: the SDK of the stdio server wraps what the handler returns as the \<open>result\<close> of a
  response with the request's id, so the answers are the same when the HTTP dispatcher
  returns a success with that id and that result, after the same requests.
\<close>

definition sameEnvelope :: "jsval \<Rightarrow> jsval io \<Rightarrow> envelope io \<Rightarrow> bool" where
  "sameEnvelope i s h = (fst s = fst h \<and> (case snd s of Inl e \<Rightarrow> False | Inr r \<Rightarrow> snd h = Inr (Success i r)))"

text \<open>The names of the catalogue as the specification lists them.\<close>

definition sevenTools :: "string list" where
  "sevenTools = [''proxmox_get_nodes'', ''proxmox_get_node_status'', ''proxmox_get_vms'', ''proxmox_get_vm_status'',
                 ''proxmox_execute_vm_command'', ''proxmox_get_storage'', ''proxmox_get_cluster_status'']"

text \<open>A two-node cluster whose node \<^verbatim>\<open>pve2\<close>, listed first, is unreachable.\<close>

definition clusterOneDown :: backend where
  "clusterOneDown rq =
     (if endpoint rq = ''/nodes''
      then Json (JObj [(''data'', JArr [JObj [(''node'', JStr ''pve2''), (''status'', JStr ''offline'')],
                                        JObj [(''node'', JStr ''pve1''), (''status'', JStr ''online'')]])])
      else if endpoint rq = ''/nodes/pve1/qemu''
      then Json (JObj [(''data'', JArr [JObj [(''vmid'', JNum 100), (''name'', JStr ''web''), (''status'', JStr ''stopped'')]])])
      else if endpoint rq = ''/nodes/pve1/lxc''
      then Json (JObj [(''data'', JArr [])])
      else NetErr ''connect EHOSTUNREACH'')"



section \<open>Properties of the stdio server\<close>

lemma bindIO_Inr: "bindIO (liftE (Inr a)) f = f a"
  by (cases "f a") (simp add: bindIO_def liftE_def)

lemma bindIO_Inl: "bindIO (liftE (Inl e)) f = ([], Inl e)"
  by (simp add: bindIO_def liftE_def)

lemma bindIO_return: "bindIO (returnIO a) f = f a"
  by (cases "f a") (simp add: bindIO_def returnIO_def)

lemma snd_bindIO_Inr:
  "snd (bindIO m f) = Inr b \<longleftrightarrow> (\<exists>a. snd m = Inr a \<and> snd (f a) = Inr b)"
  by (cases m; cases "snd m") (auto simp: bindIO_def split: prod.splits sum.splits)

lemma snd_catchIO_Inr:
  "snd (catchIO m h) = Inr b \<longleftrightarrow> snd m = Inr b \<or> (\<exists>e. snd m = Inl e \<and> snd (h e) = Inr b)"
  by (cases m; cases "snd m") (auto simp: catchIO_def split: prod.splits sum.splits)

lemma textual_bindIO: "(\<And>a. textual (f a)) \<Longrightarrow> textual (bindIO m f)"
  unfolding textual_def snd_bindIO_Inr by blast

lemma textual_catchIO: "textual m \<Longrightarrow> (\<And>e. textual (h e)) \<Longrightarrow> textual (catchIO m h)"
  unfolding textual_def snd_catchIO_Inr by blast

lemma textual_returnIO: "textual (returnIO (textContent t))"
  by (auto simp: textual_def returnIO_def)

lemma textual_throwIO: "textual (throwIO e)"
  by (simp add: textual_def throwIO_def)

lemma textual_liftE: "textual (liftE (bindE x (\<lambda>out. Inr (textContent out))))"
  by (cases x) (auto simp: textual_def liftE_def bindE_def)

lemma textual_getNodes: "textual (getNodes E be)"
proof -
  have "textual (liftE (bindE x (\<lambda>ns. bindE (g ns) (\<lambda>blocks. Inr (textContent (h blocks))))))" for x g h
    by (cases x) (auto simp: textual_def liftE_def bindE_def split: sum.splits)
  then show ?thesis unfolding getNodes_def by (intro textual_bindIO)
qed

lemma textual_getNodeStatus: "textual (getNodeStatus cfg E be node)"
  unfolding getNodeStatus_def
  by (cases "allowElevated cfg") (simp_all add: textual_returnIO textual_bindIO textual_liftE)

lemma textual_getVMs: "textual (getVMs E be a b)"
  unfolding getVMs_def Let_def by (intro textual_bindIO textual_liftE)

lemma textual_getVMStatus: "textual (getVMStatus E be a b c)"
  unfolding getVMStatus_def Let_def by (intro textual_bindIO textual_liftE)

lemma textual_executeVMCommand: "textual (executeVMCommand cfg be a b c d)"
  unfolding executeVMCommand_def Let_def
  by (cases "allowElevated cfg")
     (simp_all add: textual_returnIO textual_bindIO textual_catchIO)

lemma textual_getStorage: "textual (getStorage E be a)"
  unfolding getStorage_def Let_def by (intro textual_bindIO textual_liftE)

lemma textual_getClusterStatus: "textual (getClusterStatus cfg E be)"
  unfolding getClusterStatus_def by (intro textual_catchIO textual_bindIO textual_liftE textual_returnIO)

lemma textual_dispatch: "textual (dispatch cfg E be name args)"
  unfolding dispatch_def
  by (simp add: textual_bindIO textual_getNodes textual_getNodeStatus textual_getVMs textual_getVMStatus
        textual_executeVMCommand textual_getStorage textual_getClusterStatus textual_throwIO)

lemma callTool_caught:
  "dispatch cfg E be name args = (tr, Inl e) \<Longrightarrow>
   callTool cfg E be name args = (tr, Inr (textContent (''Error: '' @ message e)))"
  by (simp add: callTool_def catchIO_def returnIO_def)

lemma callTool_passed:
  "dispatch cfg E be name args = (tr, Inr r) \<Longrightarrow> callTool cfg E be name args = (tr, Inr r)"
  by (simp add: callTool_def catchIO_def)


lemma callTool_text: "\<exists>tr t. callTool cfg E be name args = (tr, Inr (textContent t))"
proof -
  obtain tr r where d: "dispatch cfg E be name args = (tr, r)" by (cases "dispatch cfg E be name args")
  show ?thesis
  proof (cases r)
    case (Inl e)
    with d callTool_caught show ?thesis by blast
  next
    case (Inr v)
    with d textual_dispatch [of cfg E be name args] obtain t where "v = textContent t"
      by (auto simp: textual_def)
    with d Inr callTool_passed show ?thesis by blast
  qed
qed



lemma toStr_error:
  "toStr v = Inl e \<Longrightarrow> e = TypeError ''Cannot convert object to primitive value''"
  "joinVals sep vs = Inl e \<Longrightarrow> e = TypeError ''Cannot convert object to primitive value''"
  by (induction v and sep vs arbitrary: e and e rule: toStr_joinVals.induct)
     (auto split: if_splits sum.splits)

lemma sublist_mid: "sublist xs (ps @ xs @ ss)"
  unfolding sublist_def by blast

lemma execNotice_mentions:
  "sublist ''Requires Elevated Permissions'' (execNotice c)" "sublist c (execNotice c)"
proof -
  have "execNotice c = (I_WARN @ ''  **VM Command Execution '') @ ''Requires Elevated Permissions''
          @ (''**\<newline>\<newline>''
     @ ''To execute commands on VMs, set `PROXMOX_ALLOW_ELEVATED=true` in your .env file ''
     @ ''and ensure your API token has appropriate VM permissions.\<newline>\<newline>''
     @ ''**Current permissions**: Basic (VM listing only)\<newline>''
     @ ''**Requested command**: `'' @ c @ ''`'')"
    by (simp add: execNotice_def)
  then show "sublist ''Requires Elevated Permissions'' (execNotice c)"
    using sublist_mid by metis
  have "execNotice c = (I_WARN @ ''  **VM Command Execution Requires Elevated Permissions**\<newline>\<newline>''
     @ ''To execute commands on VMs, set `PROXMOX_ALLOW_ELEVATED=true` in your .env file ''
     @ ''and ensure your API token has appropriate VM permissions.\<newline>\<newline>''
     @ ''**Current permissions**: Basic (VM listing only)\<newline>''
     @ ''**Requested command**: `'') @ c @ ''`''"
    by (simp add: execNotice_def)
  then show "sublist c (execNotice c)"
    using sublist_mid by metis
qed

lemma nodeStatusNotice_mentions: "sublist ''Requires Elevated Permissions'' nodeStatusNotice"
proof -
  have "nodeStatusNotice = (I_WARN @ ''  **Node Status '') @ ''Requires Elevated Permissions''
     @ (''**\<newline>\<newline>''
     @ ''To view detailed node status, set `PROXMOX_ALLOW_ELEVATED=true` in your .env file ''
     @ ''and ensure your API token has Sys.Audit permissions.\<newline>\<newline>''
     @ ''**Current permissions**: Basic (node listing only)'')"
    by (simp add: nodeStatusNotice_def)
  then show ?thesis using sublist_mid by metis
qed

lemma dispatch_exec:
  "\<not> nullish args \<Longrightarrow>
   dispatch cfg E be (JStr ''proxmox_execute_vm_command'') args =
     executeVMCommand cfg be (propOf args ''node'') (propOf args ''vmid'') (propOf args ''command'') (propOf args ''type'')"
  by (simp add: dispatch_def getProp_def bindIO_Inr)

lemma dispatch_node_status:
  "\<not> nullish args \<Longrightarrow>
   dispatch cfg E be (JStr ''proxmox_get_node_status'') args = getNodeStatus cfg E be (propOf args ''node'')"
  by (simp add: dispatch_def getProp_def bindIO_Inr)

text \<open>
  Claim C1, as amended. While the elevation flag is false, a \<^verbatim>\<open>tools/call\<close> with an
  arguments object that names \<^verbatim>\<open>proxmox_get_node_status\<close> or
  \<^verbatim>\<open>proxmox_execute_vm_command\<close> is answered by a text result and issues no request to
  the hypervisor API. The text of the node-status tool is a fixed notice that explains the
  elevation requirement and quotes none of the arguments. The text of the command tool
  explains the requirement and quotes the requested command, whenever the command
  converts to a string; a command that does not (an object with a member \<^verbatim>\<open>toString\<close>
  of its own) is answered by the text of the conversion's \<^verbatim>\<open>TypeError\<close> instead.
\<close>

theorem gated_tools_answer_notice:
  assumes "\<not> allowElevated cfg" and "\<not> nullish args"
  shows "callTool cfg E be (JStr ''proxmox_get_node_status'') args = ([], Inr (textContent nodeStatusNotice))
       \<and> sublist ''Requires Elevated Permissions'' nodeStatusNotice
       \<and> (\<forall>c. toStr (propOf args ''command'') = Inr c \<longrightarrow>
              callTool cfg E be (JStr ''proxmox_execute_vm_command'') args = ([], Inr (textContent (execNotice c)))
            \<and> sublist ''Requires Elevated Permissions'' (execNotice c)
            \<and> sublist c (execNotice c))
       \<and> (\<forall>e. toStr (propOf args ''command'') = Inl e \<longrightarrow>
              callTool cfg E be (JStr ''proxmox_execute_vm_command'') args
                = ([], Inr (textContent ''Error: Cannot convert object to primitive value'')))"
proof (intro conjI allI impI)
  have "dispatch cfg E be (JStr ''proxmox_get_node_status'') args = ([], Inr (textContent nodeStatusNotice))"
    using assms by (simp add: dispatch_node_status getNodeStatus_def returnIO_def)
  then show "callTool cfg E be (JStr ''proxmox_get_node_status'') args = ([], Inr (textContent nodeStatusNotice))"
    by (rule callTool_passed)
  show "sublist ''Requires Elevated Permissions'' nodeStatusNotice" by (rule nodeStatusNotice_mentions)
next
  fix c assume c: "toStr (propOf args ''command'') = Inr c"
  have "dispatch cfg E be (JStr ''proxmox_execute_vm_command'') args = ([], Inr (textContent (execNotice c)))"
    using assms c by (simp add: dispatch_exec executeVMCommand_def Let_def bindIO_Inr returnIO_def)
  then show "callTool cfg E be (JStr ''proxmox_execute_vm_command'') args = ([], Inr (textContent (execNotice c)))"
    by (rule callTool_passed)
  show "sublist ''Requires Elevated Permissions'' (execNotice c)" "sublist c (execNotice c)"
    by (rule execNotice_mentions)+
next
  fix e assume e: "toStr (propOf args ''command'') = Inl e"
  then have m: "e = TypeError ''Cannot convert object to primitive value''" by (rule toStr_error)
  have "dispatch cfg E be (JStr ''proxmox_execute_vm_command'') args = ([], Inl e)"
    using assms e by (simp add: dispatch_exec executeVMCommand_def Let_def bindIO_Inl)
  from callTool_caught [OF this]
  show "callTool cfg E be (JStr ''proxmox_execute_vm_command'') args
          = ([], Inr (textContent ''Error: Cannot convert object to primitive value''))"
    by (simp add: m TypeError_def)
qed

theorem gated_tools_answer_notice_witness:
  "callTool \<lparr>allowElevated = False\<rparr> sampleEnv (\<lambda>rq. Blank) (JStr ''proxmox_execute_vm_command'')
      (JObj [(''node'', JStr ''n1''), (''vmid'', JStr ''100''), (''command'', JStr ''uptime'')])
     = ([], Inr (textContent (execNotice ''uptime'')))
   \<and> sublist ''uptime'' (execNotice ''uptime'')
   \<and> sublist ''Requires Elevated Permissions'' (execNotice ''uptime'')
   \<and> callTool \<lparr>allowElevated = False\<rparr> sampleEnv (\<lambda>rq. Blank) (JStr ''proxmox_get_node_status'')
      (JObj [(''node'', JStr ''n1''), (''vmid'', JStr ''100''), (''command'', JStr ''uptime'')])
     = ([], Inr (textContent nodeStatusNotice))
   \<and> callTool \<lparr>allowElevated = False\<rparr> sampleEnv (\<lambda>rq. Blank) (JStr ''proxmox_execute_vm_command'')
      (JObj [(''node'', JStr ''n1''), (''vmid'', JStr ''100''), (''command'', JObj [(''toString'', JNull)])])
     = ([], Inr (textContent ''Error: Cannot convert object to primitive value''))"
  using gated_tools_answer_notice [of "\<lparr>allowElevated = False\<rparr>"
      "JObj [(''node'', JStr ''n1''), (''vmid'', JStr ''100''), (''command'', JStr ''uptime'')]" sampleEnv "\<lambda>rq. Blank"]
    gated_tools_answer_notice [of "\<lparr>allowElevated = False\<rparr>"
      "JObj [(''node'', JStr ''n1''), (''vmid'', JStr ''100''), (''command'', JObj [(''toString'', JNull)])]" sampleEnv "\<lambda>rq. Blank"]
  by simp

text \<open>
  The claim as first stated asks for the arguments in the text of every gated tool. The
  notice of \<^verbatim>\<open>proxmox_get_node_status\<close> for the node \<^verbatim>\<open>pve1\<close> does not contain
  that name.
\<close>

theorem gated_node_status_omits_argument:
  "callTool \<lparr>allowElevated = False\<rparr> sampleEnv (\<lambda>rq. Blank) (JStr ''proxmox_get_node_status'')
      (JObj [(''node'', JStr ''pve1'')])
     = ([], Inr (textContent nodeStatusNotice))
   \<and> \<not> sublist ''pve1'' nodeStatusNotice"
proof
  show "callTool \<lparr>allowElevated = False\<rparr> sampleEnv (\<lambda>rq. Blank) (JStr ''proxmox_get_node_status'')
      (JObj [(''node'', JStr ''pve1'')]) = ([], Inr (textContent nodeStatusNotice))"
    by (simp add: callTool_def catchIO_def dispatch_node_status getNodeStatus_def returnIO_def)
  show "\<not> sublist ''pve1'' nodeStatusNotice"
    by code_simp
qed

lemma proxmoxRequest_trace: "fst (proxmoxRequest be ep m b) = [\<lparr>endpoint = ep, httpMethod = m, body = (if truthy b then b else JUndefined)\<rparr>]"
  by (simp add: proxmoxRequest_def Let_def)

lemma proxmoxRequest_Json:
  "be \<lparr>endpoint = ep, httpMethod = m, body = (if truthy b then b else JUndefined)\<rparr> = Json d \<Longrightarrow> \<not> nullish d \<Longrightarrow>
   snd (proxmoxRequest be ep m b) = Inr (propOf d ''data'')"
  by (simp add: proxmoxRequest_def Let_def getProp_def)

text \<open>The text that follows an accepted request of \<^verbatim>\<open>executeVMCommand\<close>.\<close>

lemma exec_qemu:
  assumes "allowElevated cfg" "ty = JUndefined \<or> ty = JStr ''qemu''" "toStr node = Inr n" "toStr vmid = Inr v"
  shows "executeVMCommand cfg be node vmid command ty =
     (case proxmoxRequest be (''/nodes/'' @ n @ ''/qemu/'' @ v @ ''/agent/exec'') ''POST'' (JObj [(''command'', command)]) of
        (tr, Inl e) \<Rightarrow> (tr, Inr (textContent (execFailure v (message e))))
      | (tr, Inr res) \<Rightarrow>
          (tr, Inr (textContent
             (case bindE (toStr command) (\<lambda>c. bindE (getProp res ''pid'') (\<lambda>pid.
                     bindE (toStr (orElse pid (JStr ''N/A''))) (\<lambda>p. Inr (qemuAccepted v c p)))) of
                Inl e \<Rightarrow> execFailure v (message e)
              | Inr t \<Rightarrow> t))))"
  using assms
  by (auto simp: executeVMCommand_def Let_def catchIO_def bindIO_def returnIO_def liftE_def bindE_def
        split: prod.splits sum.splits)

lemma exec_lxc:
  assumes "allowElevated cfg" "ty \<noteq> JUndefined" "ty \<noteq> JStr ''qemu''" "toStr node = Inr n" "toStr vmid = Inr v"
  shows "executeVMCommand cfg be node vmid command ty =
     (case proxmoxRequest be (''/nodes/'' @ n @ ''/lxc/'' @ v @ ''/exec'') ''POST'' (JObj [(''command'', command)]) of
        (tr, Inl e) \<Rightarrow> (tr, Inr (textContent (execFailure v (message e))))
      | (tr, Inr res) \<Rightarrow>
          (tr, Inr (textContent
             (case bindE (toStr command) (\<lambda>c.
                     bindE (toStr (orElse res (JStr ''Command executed successfully''))) (\<lambda>r. Inr (lxcOutput v c r))) of
                Inl e \<Rightarrow> execFailure v (message e)
              | Inr t \<Rightarrow> t))))"
  using assms
  by (auto simp: executeVMCommand_def Let_def catchIO_def bindIO_def returnIO_def liftE_def bindE_def
        split: prod.splits sum.splits)

lemma exec_fst:
  assumes "allowElevated cfg" "toStr node = Inr n" "toStr vmid = Inr v"
  shows "fst (executeVMCommand cfg be node vmid command ty) =
         [\<lparr>endpoint = (if ty = JUndefined \<or> ty = JStr ''qemu''
                        then ''/nodes/'' @ n @ ''/qemu/'' @ v @ ''/agent/exec''
                        else ''/nodes/'' @ n @ ''/lxc/'' @ v @ ''/exec''),
            httpMethod = ''POST'', body = JObj [(''command'', command)]\<rparr>]"
proof (cases "ty = JUndefined \<or> ty = JStr ''qemu''")
  case True
  let ?p = "proxmoxRequest be (''/nodes/'' @ n @ ''/qemu/'' @ v @ ''/agent/exec'') ''POST'' (JObj [(''command'', command)])"
  have "fst (executeVMCommand cfg be node vmid command ty) = fst ?p"
    unfolding exec_qemu [OF assms(1) True assms(2,3)] by (cases ?p) (auto split: sum.splits)
  then show ?thesis using True by (simp add: proxmoxRequest_trace)
next
  case False
  then have ne: "ty \<noteq> JUndefined" "ty \<noteq> JStr ''qemu''" by simp_all
  let ?p = "proxmoxRequest be (''/nodes/'' @ n @ ''/lxc/'' @ v @ ''/exec'') ''POST'' (JObj [(''command'', command)])"
  have "fst (executeVMCommand cfg be node vmid command ty) = fst ?p"
    unfolding exec_lxc [OF assms(1) ne assms(2,3)] by (cases ?p) (auto split: sum.splits)
  then show ?thesis using False by (simp add: proxmoxRequest_trace)
qed

lemma exec_qemu_snd:
  assumes "allowElevated cfg" "ty = JUndefined \<or> ty = JStr ''qemu''" "toStr node = Inr n" "toStr vmid = Inr v"
  shows "snd (executeVMCommand cfg be node vmid command ty) =
     (case snd (proxmoxRequest be (''/nodes/'' @ n @ ''/qemu/'' @ v @ ''/agent/exec'') ''POST'' (JObj [(''command'', command)])) of
        Inl e \<Rightarrow> Inr (textContent (execFailure v (message e)))
      | Inr res \<Rightarrow>
          Inr (textContent
             (case bindE (toStr command) (\<lambda>c. bindE (getProp res ''pid'') (\<lambda>pid.
                     bindE (toStr (orElse pid (JStr ''N/A''))) (\<lambda>p. Inr (qemuAccepted v c p)))) of
                Inl e \<Rightarrow> execFailure v (message e)
              | Inr t \<Rightarrow> t)))"
  unfolding exec_qemu [OF assms]
  by (cases "proxmoxRequest be (''/nodes/'' @ n @ ''/qemu/'' @ v @ ''/agent/exec'') ''POST'' (JObj [(''command'', command)])")
     (auto split: sum.splits)

lemma exec_lxc_snd:
  assumes "allowElevated cfg" "ty \<noteq> JUndefined" "ty \<noteq> JStr ''qemu''" "toStr node = Inr n" "toStr vmid = Inr v"
  shows "snd (executeVMCommand cfg be node vmid command ty) =
     (case snd (proxmoxRequest be (''/nodes/'' @ n @ ''/lxc/'' @ v @ ''/exec'') ''POST'' (JObj [(''command'', command)])) of
        Inl e \<Rightarrow> Inr (textContent (execFailure v (message e)))
      | Inr res \<Rightarrow>
          Inr (textContent
             (case bindE (toStr command) (\<lambda>c.
                     bindE (toStr (orElse res (JStr ''Command executed successfully''))) (\<lambda>r. Inr (lxcOutput v c r))) of
                Inl e \<Rightarrow> execFailure v (message e)
              | Inr t \<Rightarrow> t)))"
  unfolding exec_lxc [OF assms]
  by (cases "proxmoxRequest be (''/nodes/'' @ n @ ''/lxc/'' @ v @ ''/exec'') ''POST'' (JObj [(''command'', command)])")
     (auto split: sum.splits)

lemma qemuAccepted_mentions:
  "sublist ''Command submitted to guest agent'' (qemuAccepted v c p)"
  "sublist (''**PID**: '' @ p) (qemuAccepted v c p)"
proof -
  have "qemuAccepted v c p =
     (I_LAPTOP @ '' **Command executed on VM '' @ v @ ''**\<newline>\<newline>''
     @ ''**Command**: `'' @ c @ ''`\<newline>''
     @ ''**Result**: '') @ ''Command submitted to guest agent'' @ (''\<newline>''
     @ ''**PID**: '' @ p @ ''\<newline>\<newline>''
     @ ''*Note: Use guest agent status to check command completion*'')"
    by (simp add: qemuAccepted_def)
  then show "sublist ''Command submitted to guest agent'' (qemuAccepted v c p)"
    using sublist_mid by metis
  have "qemuAccepted v c p =
     (I_LAPTOP @ '' **Command executed on VM '' @ v @ ''**\<newline>\<newline>''
     @ ''**Command**: `'' @ c @ ''`\<newline>''
     @ ''**Result**: Command submitted to guest agent\<newline>'')
     @ (''**PID**: '' @ p) @ (''\<newline>\<newline>''
     @ ''*Note: Use guest agent status to check command completion*'')"
    by (simp add: qemuAccepted_def)
  then show "sublist (''**PID**: '' @ p) (qemuAccepted v c p)"
    using sublist_mid by metis
qed

lemma lxcOutput_mentions: "sublist r (lxcOutput v c r)"
proof -
  have "lxcOutput v c r =
     (I_BOX @ '' **Command executed on LXC '' @ v @ ''**\<newline>\<newline>''
     @ ''**Command**: `'' @ c @ ''`\<newline>''
     @ ''**Output**:\<newline>```\<newline>'')
     @ r @ ''\<newline>```''"
    by (simp add: lxcOutput_def)
  then show ?thesis using sublist_mid by metis
qed

lemma snd_catchIO_returns:
  "(\<And>e. \<exists>r. snd (h e) = Inr r) \<Longrightarrow> \<exists>r. snd (catchIO m h) = Inr r"
  unfolding snd_catchIO_Inr by (cases "snd m") auto

lemma executeVMCommand_returns:
  assumes "allowElevated cfg" "toStr vmid = Inr v"
  shows "\<exists>r. snd (executeVMCommand cfg be node vmid command ty) = Inr r"
  using assms unfolding executeVMCommand_def Let_def
  by (simp add: bindIO_Inr returnIO_def snd_catchIO_returns)

lemma callTool_exec:
  assumes "\<not> nullish args" "allowElevated cfg" "toStr (propOf args ''vmid'') = Inr v"
  shows "callTool cfg E be (JStr ''proxmox_execute_vm_command'') args =
     executeVMCommand cfg be (propOf args ''node'') (propOf args ''vmid'') (propOf args ''command'') (propOf args ''type'')"
proof -
  obtain tr r where "executeVMCommand cfg be (propOf args ''node'') (propOf args ''vmid'') (propOf args ''command'') (propOf args ''type'') = (tr, Inr r)"
    using executeVMCommand_returns [OF assms(2,3), of be "propOf args ''node''" "propOf args ''command''" "propOf args ''type''"]
    by (metis prod.collapse)
  then show ?thesis using assms(1) by (simp add: callTool_def dispatch_exec catchIO_def)
qed

text \<open>
  Claim C6, as amended. An elevated \<^verbatim>\<open>proxmox_execute_vm_command\<close> call with an
  arguments object whose node, VM id and command convert to strings selects its strategy
  by the kind of target. For \<^verbatim>\<open>qemu\<close> (also the default when no type is given) the
  handler issues exactly one request, the submission to the guest agent, and when that is
  accepted with a data object whose process identifier can be printed it answers with the
  submission notice and that identifier, without any further request for the command's
  output. For \<^verbatim>\<open>lxc\<close> it issues exactly one request to the container's exec endpoint
  and, when that is answered with a result that can be printed, answers with that result
  inline.
\<close>

theorem exec_strategy_by_kind:
  assumes "allowElevated cfg" and "\<not> nullish args"
    and "toStr (propOf args ''node'') = Inr n" and "toStr (propOf args ''vmid'') = Inr v"
    and "toStr (propOf args ''command'') = Inr c"
  shows
    "(let command = propOf args ''command''; ty = propOf args ''type'';
          agentReq = \<lparr>endpoint = ''/nodes/'' @ n @ ''/qemu/'' @ v @ ''/agent/exec'',
                      httpMethod = ''POST'', body = JObj [(''command'', command)]\<rparr>;
          execReq = \<lparr>endpoint = ''/nodes/'' @ n @ ''/lxc/'' @ v @ ''/exec'',
                     httpMethod = ''POST'', body = JObj [(''command'', command)]\<rparr>;
          out = callTool cfg E be (JStr ''proxmox_execute_vm_command'') args
      in (ty = JUndefined \<or> ty = JStr ''qemu'' \<longrightarrow>
            fst out = [agentReq] \<and>
            (\<forall>d p. be agentReq = Json d \<and> \<not> nullish d \<and> \<not> nullish (propOf d ''data'')
                   \<and> toStr (orElse (propOf (propOf d ''data'') ''pid'') (JStr ''N/A'')) = Inr p \<longrightarrow>
                 snd out = Inr (textContent (qemuAccepted v c p))))
       \<and> (ty = JStr ''lxc'' \<longrightarrow>
            fst out = [execReq] \<and>
            (\<forall>d r. be execReq = Json d \<and> \<not> nullish d
                   \<and> toStr (orElse (propOf d ''data'') (JStr ''Command executed successfully'')) = Inr r \<longrightarrow>
                 snd out = Inr (textContent (lxcOutput v c r))))
       \<and> (\<forall>p. sublist ''Command submitted to guest agent'' (qemuAccepted v c p)
              \<and> sublist (''**PID**: '' @ p) (qemuAccepted v c p))
       \<and> (\<forall>r. sublist r (lxcOutput v c r)))"
proof -
  let ?node = "propOf args ''node''" and ?vmid = "propOf args ''vmid''" and ?command = "propOf args ''command''"
  let ?ty = "propOf args ''type''"
  let ?aep = "''/nodes/'' @ n @ ''/qemu/'' @ v @ ''/agent/exec''"
  let ?eep = "''/nodes/'' @ n @ ''/lxc/'' @ v @ ''/exec''"
  let ?b = "JObj [(''command'', ?command)]"
  let ?out = "callTool cfg E be (JStr ''proxmox_execute_vm_command'') args"
  have out: "?out = executeVMCommand cfg be ?node ?vmid ?command ?ty"
    using assms(2,1,4) by (rule callTool_exec)
  have q1: "fst ?out = [\<lparr>endpoint = ?aep, httpMethod = ''POST'', body = ?b\<rparr>]"
    if "?ty = JUndefined \<or> ?ty = JStr ''qemu''"
    unfolding out exec_fst [OF assms(1,3,4)] using that by simp
  have q2: "snd ?out = Inr (textContent (qemuAccepted v c p))"
    if "?ty = JUndefined \<or> ?ty = JStr ''qemu''"
      and "be \<lparr>endpoint = ?aep, httpMethod = ''POST'', body = ?b\<rparr> = Json d" "\<not> nullish d"
          "\<not> nullish (propOf d ''data'')" "toStr (orElse (propOf (propOf d ''data'') ''pid'') (JStr ''N/A'')) = Inr p" for d p
  proof -
    have "snd (proxmoxRequest be ?aep ''POST'' ?b) = Inr (propOf d ''data'')"
      using that(2,3) by (intro proxmoxRequest_Json) simp_all
    then show ?thesis
      unfolding out exec_qemu_snd [OF assms(1) that(1) assms(3,4)] using that(4,5) assms(5)
      by (simp add: getProp_def bindE_def)
  qed
  have l1: "fst ?out = [\<lparr>endpoint = ?eep, httpMethod = ''POST'', body = ?b\<rparr>]" if "?ty = JStr ''lxc''"
    unfolding out exec_fst [OF assms(1,3,4)] using that by simp
  have l2: "snd ?out = Inr (textContent (lxcOutput v c r))"
    if "?ty = JStr ''lxc''" and "be \<lparr>endpoint = ?eep, httpMethod = ''POST'', body = ?b\<rparr> = Json d" "\<not> nullish d"
       "toStr (orElse (propOf d ''data'') (JStr ''Command executed successfully'')) = Inr r" for d r
  proof -
    from that have ne: "?ty \<noteq> JUndefined" "?ty \<noteq> JStr ''qemu''" by simp_all
    have "snd (proxmoxRequest be ?eep ''POST'' ?b) = Inr (propOf d ''data'')"
      using that(2,3) by (intro proxmoxRequest_Json) simp_all
    then show ?thesis
      unfolding out exec_lxc_snd [OF assms(1) ne assms(3,4)] using that(4) assms(5)
      by (simp add: bindE_def)
  qed
  show ?thesis
    unfolding Let_def
    using q1 q2 l1 l2 qemuAccepted_mentions lxcOutput_mentions by blast
qed

theorem exec_strategy_by_kind_witness:
  "callTool \<lparr>allowElevated = True\<rparr> sampleEnv (\<lambda>rq. Json (JObj [(''data'', JObj [(''pid'', JNum 4242)])]))
      (JStr ''proxmox_execute_vm_command'')
      (JObj [(''node'', JStr ''n1''), (''vmid'', JStr ''100''), (''command'', JStr ''uptime'')])
    = ([\<lparr>endpoint = ''/nodes/n1/qemu/100/agent/exec'', httpMethod = ''POST'',
         body = JObj [(''command'', JStr ''uptime'')]\<rparr>],
       Inr (textContent (qemuAccepted ''100'' ''uptime'' ''4242'')))
   \<and> sublist ''**PID**: 4242'' (qemuAccepted ''100'' ''uptime'' ''4242'')
   \<and> callTool \<lparr>allowElevated = True\<rparr> sampleEnv (\<lambda>rq. Json (JObj [(''data'', JStr ''up 3 days'')]))
      (JStr ''proxmox_execute_vm_command'')
      (JObj [(''node'', JStr ''n1''), (''vmid'', JStr ''101''), (''command'', JStr ''uptime''), (''type'', JStr ''lxc'')])
    = ([\<lparr>endpoint = ''/nodes/n1/lxc/101/exec'', httpMethod = ''POST'',
         body = JObj [(''command'', JStr ''uptime'')]\<rparr>],
       Inr (textContent (lxcOutput ''101'' ''uptime'' ''up 3 days'')))
   \<and> sublist ''up 3 days'' (lxcOutput ''101'' ''uptime'' ''up 3 days'')"
proof -
  let ?c = "\<lparr>allowElevated = True\<rparr>"
  let ?a1 = "JObj [(''node'', JStr ''n1''), (''vmid'', JStr ''100''), (''command'', JStr ''uptime'')]"
  let ?b1 = "(\<lambda>rq. Json (JObj [(''data'', JObj [(''pid'', JNum 4242)])])) :: backend"
  let ?a2 = "JObj [(''node'', JStr ''n1''), (''vmid'', JStr ''101''), (''command'', JStr ''uptime''), (''type'', JStr ''lxc'')]"
  let ?b2 = "(\<lambda>rq. Json (JObj [(''data'', JStr ''up 3 days'')])) :: backend"
  have pid: "toStr (JNum 4242) = Inr ''4242''" by code_simp
  have 1: "fst (callTool ?c sampleEnv ?b1 (JStr ''proxmox_execute_vm_command'') ?a1)
             = [\<lparr>endpoint = ''/nodes/n1/qemu/100/agent/exec'', httpMethod = ''POST'',
                 body = JObj [(''command'', JStr ''uptime'')]\<rparr>]
         \<and> snd (callTool ?c sampleEnv ?b1 (JStr ''proxmox_execute_vm_command'') ?a1)
             = Inr (textContent (qemuAccepted ''100'' ''uptime'' ''4242''))"
    using exec_strategy_by_kind [of ?c ?a1 "''n1''" "''100''" "''uptime''" sampleEnv ?b1] pid
    by (simp add: Let_def orElse_def)
  have 2: "fst (callTool ?c sampleEnv ?b2 (JStr ''proxmox_execute_vm_command'') ?a2)
             = [\<lparr>endpoint = ''/nodes/n1/lxc/101/exec'', httpMethod = ''POST'',
                 body = JObj [(''command'', JStr ''uptime'')]\<rparr>]
         \<and> snd (callTool ?c sampleEnv ?b2 (JStr ''proxmox_execute_vm_command'') ?a2)
             = Inr (textContent (lxcOutput ''101'' ''uptime'' ''up 3 days''))"
    using exec_strategy_by_kind [of ?c ?a2 "''n1''" "''101''" "''uptime''" sampleEnv ?b2]
    by (simp add: Let_def orElse_def)
  have 3: "sublist ''**PID**: 4242'' (qemuAccepted ''100'' ''uptime'' ''4242'')"
    by code_simp
  have 4: "sublist ''up 3 days'' (lxcOutput ''101'' ''uptime'' ''up 3 days'')"
    by code_simp
  from 1 2 3 4 show ?thesis unfolding prod_eq_iff fst_conv snd_conv by blast
qed

text \<open>
  The claim as first stated asks this of every elevated call. A command that is an object
  with a member \<^verbatim>\<open>toString\<close> of its own is submitted to the guest agent, which accepts
  it; the handler then fails to print the command and answers with the failure notice
  instead of the submission notice.
\<close>

theorem exec_unprintable_command_reports_failure:
  "callTool \<lparr>allowElevated = True\<rparr> sampleEnv (\<lambda>rq. Json (JObj [(''data'', JObj [(''pid'', JNum 4242)])]))
      (JStr ''proxmox_execute_vm_command'')
      (JObj [(''node'', JStr ''n1''), (''vmid'', JStr ''100''), (''command'', JObj [(''toString'', JNull)])])
    = ([\<lparr>endpoint = ''/nodes/n1/qemu/100/agent/exec'', httpMethod = ''POST'',
         body = JObj [(''command'', JObj [(''toString'', JNull)])]\<rparr>],
       Inr (textContent (execFailure ''100'' ''Cannot convert object to primitive value'')))
   \<and> \<not> sublist ''Command submitted to guest agent'' (execFailure ''100'' ''Cannot convert object to primitive value'')"
proof
  show "callTool \<lparr>allowElevated = True\<rparr> sampleEnv (\<lambda>rq. Json (JObj [(''data'', JObj [(''pid'', JNum 4242)])]))
      (JStr ''proxmox_execute_vm_command'')
      (JObj [(''node'', JStr ''n1''), (''vmid'', JStr ''100''), (''command'', JObj [(''toString'', JNull)])])
    = ([\<lparr>endpoint = ''/nodes/n1/qemu/100/agent/exec'', httpMethod = ''POST'',
         body = JObj [(''command'', JObj [(''toString'', JNull)])]\<rparr>],
       Inr (textContent (execFailure ''100'' ''Cannot convert object to primitive value'')))"
    by (simp add: callTool_def dispatch_exec executeVMCommand_def Let_def bindIO_def liftE_def catchIO_def
          returnIO_def proxmoxRequest_def getProp_def TypeError_def)
  show "\<not> sublist ''Command submitted to guest agent'' (execFailure ''100'' ''Cannot convert object to primitive value'')"
    by code_simp
qed

lemma execFailure_mentions:
  "sublist m (execFailure v m)" "sublist v (execFailure v m)"
proof -
  have "execFailure v m = (I_CROSS @ '' **Failed to execute command on VM '' @ v @ ''**\<newline>\<newline>''
     @ ''Error: '') @ m @ (''\<newline>\<newline>''
     @ ''*Note: Make sure the VM has guest agent installed and running*'')"
    by (simp add: execFailure_def)
  then show "sublist m (execFailure v m)" using sublist_mid by metis
  have "execFailure v m = (I_CROSS @ '' **Failed to execute command on VM '') @ v @ (''**\<newline>\<newline>''
     @ ''Error: '' @ m @ ''\<newline>\<newline>''
     @ ''*Note: Make sure the VM has guest agent installed and running*'')"
    by (simp add: execFailure_def)
  then show "sublist v (execFailure v m)" using sublist_mid by metis
qed

text \<open>
  Claim C9, as amended. An elevated \<^verbatim>\<open>proxmox_execute_vm_command\<close> call with an
  arguments object whose node and VM id convert to strings returns a text result, never
  an exception. When its request to the hypervisor fails, the text is the failure notice:
  a fixed frame around the VM id and the message of the error, which therefore contains
  both. The command is not inserted into it.
\<close>

theorem exec_failure_is_content:
  assumes "allowElevated cfg" and "\<not> nullish args"
    and "toStr (propOf args ''node'') = Inr n" and "toStr (propOf args ''vmid'') = Inr v"
  shows
    "(let command = propOf args ''command''; ty = propOf args ''type'';
          ep = (if ty = JUndefined \<or> ty = JStr ''qemu''
                then ''/nodes/'' @ n @ ''/qemu/'' @ v @ ''/agent/exec''
                else ''/nodes/'' @ n @ ''/lxc/'' @ v @ ''/exec'');
          out = callTool cfg E be (JStr ''proxmox_execute_vm_command'') args
      in (\<exists>tr t. out = (tr, Inr (textContent t)))
       \<and> (\<forall>e. snd (proxmoxRequest be ep ''POST'' (JObj [(''command'', command)])) = Inl e \<longrightarrow>
              out = ([\<lparr>endpoint = ep, httpMethod = ''POST'', body = JObj [(''command'', command)]\<rparr>],
                     Inr (textContent (execFailure v (message e)))))
       \<and> (\<forall>m. sublist m (execFailure v m) \<and> sublist v (execFailure v m)))"
proof -
  let ?node = "propOf args ''node''" and ?vmid = "propOf args ''vmid''" and ?command = "propOf args ''command''"
  let ?ty = "propOf args ''type''"
  let ?aep = "''/nodes/'' @ n @ ''/qemu/'' @ v @ ''/agent/exec''"
  let ?eep = "''/nodes/'' @ n @ ''/lxc/'' @ v @ ''/exec''"
  let ?ep = "if ?ty = JUndefined \<or> ?ty = JStr ''qemu'' then ?aep else ?eep"
  let ?b = "JObj [(''command'', ?command)]"
  let ?out = "callTool cfg E be (JStr ''proxmox_execute_vm_command'') args"
  have out: "?out = executeVMCommand cfg be ?node ?vmid ?command ?ty"
    using assms(2,1,4) by (rule callTool_exec)
  have a: "\<exists>tr t. ?out = (tr, Inr (textContent t))" by (rule callTool_text)
  have tr: "fst ?out = [\<lparr>endpoint = ?ep, httpMethod = ''POST'', body = ?b\<rparr>]"
    unfolding out exec_fst [OF assms(1,3,4)] by simp
  have b: "?out = ([\<lparr>endpoint = ?ep, httpMethod = ''POST'', body = ?b\<rparr>], Inr (textContent (execFailure v (message e))))"
    if f: "snd (proxmoxRequest be ?ep ''POST'' ?b) = Inl e" for e
  proof (cases "?ty = JUndefined \<or> ?ty = JStr ''qemu''")
    case True
    then have ep: "?ep = ?aep" by simp
    have "snd ?out = Inr (textContent (execFailure v (message e)))"
      using f unfolding out exec_qemu_snd [OF assms(1) True assms(3,4)] ep by simp
    with tr show ?thesis by (simp add: prod_eq_iff)
  next
    case False
    then have ep: "?ep = ?eep" and ne: "?ty \<noteq> JUndefined" "?ty \<noteq> JStr ''qemu''" by simp_all
    have "snd ?out = Inr (textContent (execFailure v (message e)))"
      using f unfolding out exec_lxc_snd [OF assms(1) ne assms(3,4)] ep by simp
    with tr show ?thesis by (simp add: prod_eq_iff)
  qed
  show ?thesis unfolding Let_def using a b execFailure_mentions by blast
qed

lemma agent_down_request:
  "snd (proxmoxRequest (\<lambda>rq. HttpErr 500 ''Internal Server Error'' ''QEMU guest agent is not running'')
          ''/nodes/n1/qemu/100/agent/exec'' ''POST'' (JObj [(''command'', JStr ''uptime'')]))
     = Inl (Error ''Failed to connect to Proxmox: Proxmox API error: 500 - QEMU guest agent is not running'')"
proof -
  have "decNat 500 = ''500''" by code_simp
  then show ?thesis by (simp add: proxmoxRequest_def Let_def)
qed

theorem exec_failure_is_content_witness:
  "callTool \<lparr>allowElevated = True\<rparr> sampleEnv
      (\<lambda>rq. HttpErr 500 ''Internal Server Error'' ''QEMU guest agent is not running'')
      (JStr ''proxmox_execute_vm_command'')
      (JObj [(''node'', JStr ''n1''), (''vmid'', JStr ''100''), (''command'', JStr ''uptime'')])
    = ([\<lparr>endpoint = ''/nodes/n1/qemu/100/agent/exec'', httpMethod = ''POST'',
         body = JObj [(''command'', JStr ''uptime'')]\<rparr>],
       Inr (textContent (execFailure ''100''
              ''Failed to connect to Proxmox: Proxmox API error: 500 - QEMU guest agent is not running'')))"
  using exec_failure_is_content [of "\<lparr>allowElevated = True\<rparr>"
      "JObj [(''node'', JStr ''n1''), (''vmid'', JStr ''100''), (''command'', JStr ''uptime'')]" "''n1''" "''100''"
      sampleEnv "\<lambda>rq. HttpErr 500 ''Internal Server Error'' ''QEMU guest agent is not running''"]
    agent_down_request
  by (simp add: Let_def Error_def)

text \<open>
  The claim as first stated asks for the command in the error text. For the command
  \<^verbatim>\<open>uptime\<close> on a machine whose guest agent does not answer, the failure notice does
  not contain it.
\<close>

theorem exec_failure_omits_command:
  "callTool \<lparr>allowElevated = True\<rparr> sampleEnv
      (\<lambda>rq. HttpErr 500 ''Internal Server Error'' ''QEMU guest agent is not running'')
      (JStr ''proxmox_execute_vm_command'')
      (JObj [(''node'', JStr ''n1''), (''vmid'', JStr ''100''), (''command'', JStr ''uptime'')])
    = ([\<lparr>endpoint = ''/nodes/n1/qemu/100/agent/exec'', httpMethod = ''POST'',
         body = JObj [(''command'', JStr ''uptime'')]\<rparr>],
       Inr (textContent (execFailure ''100''
              ''Failed to connect to Proxmox: Proxmox API error: 500 - QEMU guest agent is not running'')))
   \<and> \<not> sublist ''uptime'' (execFailure ''100''
              ''Failed to connect to Proxmox: Proxmox API error: 500 - QEMU guest agent is not running'')"
proof
  have "decNat 500 = ''500''" by code_simp
  then show "callTool \<lparr>allowElevated = True\<rparr> sampleEnv
      (\<lambda>rq. HttpErr 500 ''Internal Server Error'' ''QEMU guest agent is not running'')
      (JStr ''proxmox_execute_vm_command'')
      (JObj [(''node'', JStr ''n1''), (''vmid'', JStr ''100''), (''command'', JStr ''uptime'')])
    = ([\<lparr>endpoint = ''/nodes/n1/qemu/100/agent/exec'', httpMethod = ''POST'',
         body = JObj [(''command'', JStr ''uptime'')]\<rparr>],
       Inr (textContent (execFailure ''100''
              ''Failed to connect to Proxmox: Proxmox API error: 500 - QEMU guest agent is not running'')))"
    by (simp add: callTool_def dispatch_exec executeVMCommand_def Let_def bindIO_def liftE_def catchIO_def
          returnIO_def proxmoxRequest_def Error_def)
  show "\<not> sublist ''uptime'' (execFailure ''100''
              ''Failed to connect to Proxmox: Proxmox API error: 500 - QEMU guest agent is not running'')"
    by code_simp
qed

section \<open>Properties of the HTTP dispatcher\<close>

text \<open>
  Claim C4, as amended. The tool list of each server is a constant that no configuration
  enters, so the elevation flag cannot filter it. The stdio server lists the seven tools
  of the catalogue; the HTTP dispatcher lists only the three tools that it implements,
  and echoes the request's id.
\<close>

theorem tools_list_fixed:
  "toolNames listTools =
     [''proxmox_get_nodes'', ''proxmox_get_node_status'', ''proxmox_get_vms'', ''proxmox_get_vm_status'',
      ''proxmox_execute_vm_command'', ''proxmox_get_storage'', ''proxmox_get_cluster_status'']
   \<and> toolNames (result (handleToolsList request)) =
     [''proxmox_get_nodes'', ''proxmox_get_vms'', ''proxmox_get_cluster_status'']
   \<and> rid (handleToolsList request) = propOf request ''id''"
  by (simp add: toolNames_def listTools_def toolDescriptor_def handleToolsList_def http_toolDescriptor_def nameOf_def)

text \<open>
  The claim as first stated asks for the seven names from every \<^verbatim>\<open>tools/list\<close> call.
  The HTTP dispatcher answers such a call with three names.
\<close>

theorem http_tools_list_is_shorter:
  "handleMCPRequest sampleEnv (\<lambda>rq. Blank) (JObj [(''jsonrpc'', JStr ''2.0''), (''id'', JNum 1), (''method'', JStr ''tools/list'')])
     = ([], Inr (handleToolsList (JObj [(''jsonrpc'', JStr ''2.0''), (''id'', JNum 1), (''method'', JStr ''tools/list'')])))
   \<and> set (toolNames (result (handleToolsList (JObj [(''jsonrpc'', JStr ''2.0''), (''id'', JNum 1), (''method'', JStr ''tools/list'')]))))
     \<noteq> set sevenTools"
proof
  show "handleMCPRequest sampleEnv (\<lambda>rq. Blank) (JObj [(''jsonrpc'', JStr ''2.0''), (''id'', JNum 1), (''method'', JStr ''tools/list'')])
     = ([], Inr (handleToolsList (JObj [(''jsonrpc'', JStr ''2.0''), (''id'', JNum 1), (''method'', JStr ''tools/list'')])))"
    by (simp add: handleMCPRequest_def getProp_def bindIO_Inr returnIO_def)
  have "''proxmox_get_storage'' \<in> set sevenTools" by (simp add: sevenTools_def)
  moreover have "''proxmox_get_storage'' \<notin> set (toolNames (result (handleToolsList (JObj [(''jsonrpc'', JStr ''2.0''), (''id'', JNum 1), (''method'', JStr ''tools/list'')]))))"
    by (simp add: toolNames_def handleToolsList_def http_toolDescriptor_def nameOf_def)
  ultimately show "set (toolNames (result (handleToolsList (JObj [(''jsonrpc'', JStr ''2.0''), (''id'', JNum 1), (''method'', JStr ''tools/list'')]))))
     \<noteq> set sevenTools" by blast
qed


lemma http_dispatch_unknown:
  "n \<notin> {''proxmox_get_nodes'', ''proxmox_get_vms'', ''proxmox_get_cluster_status''} \<Longrightarrow>
   http_dispatch E be (JStr n) args = ([], Inl (Error (''Unknown tool: '' @ n)))"
  by (auto simp: http_dispatch_def throwIO_def bindIO_Inr)

lemma handleToolCall_caught:
  assumes "\<not> nullish (propOf request ''params'')"
    and "http_dispatch E be (propOf (propOf request ''params'') ''name'') (propOf (propOf request ''params'') ''arguments'') = (tr, Inl e)"
  shows "handleToolCall E be request =
           (tr, Inr (Failure (propOf request ''id'') (- 32603) ''Tool execution failed'' (JStr (message e))))"
  using assms by (simp add: handleToolCall_def catchIO_def bindIO_def returnIO_def)

lemma handleToolCall_passed:
  assumes "\<not> nullish (propOf request ''params'')"
    and "http_dispatch E be (propOf (propOf request ''params'') ''name'') (propOf (propOf request ''params'') ''arguments'') = (tr, Inr t)"
  shows "handleToolCall E be request = (tr, Inr (Success (propOf request ''id'') (textContent t)))"
  using assms by (simp add: handleToolCall_def catchIO_def bindIO_def returnIO_def)

lemma handleMCPRequest_call:
  "propOf request ''method'' = JStr ''tools/call'' \<Longrightarrow> handleMCPRequest E be request = handleToolCall E be request"
  by (cases request) (simp_all add: handleMCPRequest_def getProp_def bindIO_Inr)




text \<open>
  Claim C8 at the input that breaks it. A \<^verbatim>\<open>tools/call\<close> request with id \<open>0\<close> and no
  \<^verbatim>\<open>params\<close> makes the dispatcher throw; the route answers with status 500 and the id
  \<open>null\<close>, because \<^verbatim>\<open>req.body?.id || null\<close> replaces every falsy id.
\<close>

theorem error_path_drops_falsy_id:
  "setupMCPEndpoint sampleEnv (\<lambda>rq. Blank)
        (JObj [(''jsonrpc'', JStr ''2.0''), (''id'', JNum 0), (''method'', JStr ''tools/call'')])
     = ([], \<lparr>status = 500,
             payload = Failure JNull (- 32603) ''Internal error''
               (JStr (''Cannot destructure property '' @ [CHR 0x27] @ ''name'' @ [CHR 0x27] @ '' of ''
                      @ [CHR 0x27] @ ''request.params'' @ [CHR 0x27] @ '' as it is undefined.''))\<rparr>)
   \<and> rid (payload (snd (setupMCPEndpoint sampleEnv (\<lambda>rq. Blank)
        (JObj [(''jsonrpc'', JStr ''2.0''), (''id'', JNum 0), (''method'', JStr ''tools/call'')])))) \<noteq> JNum 0"
  by (simp add: setupMCPEndpoint_def handleMCPRequest_call handleToolCall_def throwIO_def TypeError_def
        orElse_def optProp_def)

lemma handleToolCall_shape:
  assumes "\<not> nullish (propOf request ''params'')"
  shows "\<exists>tr. (\<exists>t. handleToolCall E be request = (tr, Inr (Success (propOf request ''id'') (textContent t))))
            \<or> (\<exists>d. handleToolCall E be request =
                      (tr, Inr (Failure (propOf request ''id'') (- 32603) ''Tool execution failed'' (JStr d))))"
proof -
  obtain tr r where d: "http_dispatch E be (propOf (propOf request ''params'') ''name'')
      (propOf (propOf request ''params'') ''arguments'') = (tr, r)"
    by (cases "http_dispatch E be (propOf (propOf request ''params'') ''name'') (propOf (propOf request ''params'') ''arguments'')")
  show ?thesis
  proof (cases r)
    case (Inl e)
    with d handleToolCall_caught [OF assms] show ?thesis by blast
  next
    case (Inr t)
    with d handleToolCall_passed [OF assms] show ?thesis by blast
  qed
qed

text \<open>
  Claim C5, as amended. The two dispatchers give a tool's text the same result shape, one
  text item: the stdio handler always, the HTTP dispatcher whenever it succeeds. They are
  not equivalent: the HTTP dispatcher answers a \<^verbatim>\<open>tools/call\<close> that has \<^verbatim>\<open>params\<close>
  either with that success or with a JSON-RPC error of code -32603, and for each of the
  four tools that only the stdio server implements it always answers with that error,
  \<open>Unknown tool\<close> and the name, without any request, where the stdio handler answers
  with a text result.
\<close>

theorem transports_share_result_shape:
  "(\<exists>tr t. callTool cfg E be name args = (tr, Inr (textContent t)))
   \<and> (\<not> nullish (propOf request ''params'') \<longrightarrow>
        (\<exists>tr. (\<exists>t. handleToolCall H be request = (tr, Inr (Success (propOf request ''id'') (textContent t))))
            \<or> (\<exists>d. handleToolCall H be request =
                      (tr, Inr (Failure (propOf request ''id'') (- 32603) ''Tool execution failed'' (JStr d))))))
   \<and> (\<not> nullish (propOf request ''params'')
       \<and> propOf (propOf request ''params'') ''name'' = JStr n
       \<and> n \<in> {''proxmox_get_node_status'', ''proxmox_get_vm_status'', ''proxmox_execute_vm_command'',
                ''proxmox_get_storage''} \<longrightarrow>
        handleToolCall H be request =
          ([], Inr (Failure (propOf request ''id'') (- 32603) ''Tool execution failed'' (JStr (''Unknown tool: '' @ n))))
        \<and> (\<exists>tr t. callTool cfg E be (JStr n) (propOf (propOf request ''params'') ''arguments'')
                     = (tr, Inr (textContent t))))"
proof (intro conjI impI)
  show "\<exists>tr t. callTool cfg E be name args = (tr, Inr (textContent t))" by (rule callTool_text)
next
  assume "\<not> nullish (propOf request ''params'')"
  then show "\<exists>tr. (\<exists>t. handleToolCall H be request = (tr, Inr (Success (propOf request ''id'') (textContent t))))
            \<or> (\<exists>d. handleToolCall H be request =
                      (tr, Inr (Failure (propOf request ''id'') (- 32603) ''Tool execution failed'' (JStr d))))"
    by (rule handleToolCall_shape)
next
  assume a: "\<not> nullish (propOf request ''params'')
       \<and> propOf (propOf request ''params'') ''name'' = JStr n
       \<and> n \<in> {''proxmox_get_node_status'', ''proxmox_get_vm_status'', ''proxmox_execute_vm_command'',
                ''proxmox_get_storage''}"
  then have "n \<notin> {''proxmox_get_nodes'', ''proxmox_get_vms'', ''proxmox_get_cluster_status''}"
    by auto
  then have "http_dispatch H be (propOf (propOf request ''params'') ''name'') (propOf (propOf request ''params'') ''arguments'')
               = ([], Inl (Error (''Unknown tool: '' @ n)))"
    using a http_dispatch_unknown [of n H be] by simp
  from handleToolCall_caught [OF _ this] a
  show "handleToolCall H be request =
          ([], Inr (Failure (propOf request ''id'') (- 32603) ''Tool execution failed'' (JStr (''Unknown tool: '' @ n))))"
    by (simp add: Error_def)
next
  show "\<exists>tr t. callTool cfg E be (JStr n) (propOf (propOf request ''params'') ''arguments'')
                     = (tr, Inr (textContent t))"
    by (rule callTool_text)
qed

theorem transports_share_result_shape_witness:
  "handleToolCall sampleEnv (\<lambda>rq. Blank)
          (JObj [(''jsonrpc'', JStr ''2.0''), (''id'', JNum 3), (''method'', JStr ''tools/call''),
                 (''params'', JObj [(''name'', JStr ''proxmox_get_storage''), (''arguments'', JObj [])])])
     = ([], Inr (Failure (JNum 3) (- 32603) ''Tool execution failed'' (JStr ''Unknown tool: proxmox_get_storage'')))
   \<and> (\<exists>tr t. callTool \<lparr>allowElevated = True\<rparr> sampleEnv (\<lambda>rq. Blank) (JStr ''proxmox_get_storage'') (JObj [])
                = (tr, Inr (textContent t)))"
  using transports_share_result_shape [of "\<lparr>allowElevated = True\<rparr>" sampleEnv "\<lambda>rq. Blank" "JStr ''x''" "JObj []"
      "JObj [(''jsonrpc'', JStr ''2.0''), (''id'', JNum 3), (''method'', JStr ''tools/call''),
                 (''params'', JObj [(''name'', JStr ''proxmox_get_storage''), (''arguments'', JObj [])])]" sampleEnv
      "''proxmox_get_storage''"]
  by simp

text \<open>
  The claim as first stated asks for identical envelopes. For the same call of
  \<^verbatim>\<open>proxmox_get_node_status\<close> the stdio handler returns the elevation notice and the
  HTTP dispatcher a protocol failure.
\<close>

theorem transports_differ_on_node_status:
  "callTool \<lparr>allowElevated = False\<rparr> sampleEnv (\<lambda>rq. Blank) (JStr ''proxmox_get_node_status'')
      (JObj [(''node'', JStr ''pve1'')])
     = ([], Inr (textContent nodeStatusNotice))
   \<and> handleMCPRequest sampleEnv (\<lambda>rq. Blank)
        (JObj [(''jsonrpc'', JStr ''2.0''), (''id'', JNum 3), (''method'', JStr ''tools/call''),
               (''params'', JObj [(''name'', JStr ''proxmox_get_node_status''),
                                  (''arguments'', JObj [(''node'', JStr ''pve1'')])])])
     = ([], Inr (Failure (JNum 3) (- 32603) ''Tool execution failed'' (JStr ''Unknown tool: proxmox_get_node_status'')))
   \<and> \<not> sameEnvelope (JNum 3)
        (callTool \<lparr>allowElevated = False\<rparr> sampleEnv (\<lambda>rq. Blank) (JStr ''proxmox_get_node_status'')
           (JObj [(''node'', JStr ''pve1'')]))
        (handleMCPRequest sampleEnv (\<lambda>rq. Blank)
           (JObj [(''jsonrpc'', JStr ''2.0''), (''id'', JNum 3), (''method'', JStr ''tools/call''),
                  (''params'', JObj [(''name'', JStr ''proxmox_get_node_status''),
                                     (''arguments'', JObj [(''node'', JStr ''pve1'')])])]))"
proof -
  have 1: "callTool \<lparr>allowElevated = False\<rparr> sampleEnv (\<lambda>rq. Blank) (JStr ''proxmox_get_node_status'')
      (JObj [(''node'', JStr ''pve1'')]) = ([], Inr (textContent nodeStatusNotice))"
    by (simp add: callTool_def catchIO_def dispatch_node_status getNodeStatus_def returnIO_def)
  have 2: "handleMCPRequest sampleEnv (\<lambda>rq. Blank)
        (JObj [(''jsonrpc'', JStr ''2.0''), (''id'', JNum 3), (''method'', JStr ''tools/call''),
               (''params'', JObj [(''name'', JStr ''proxmox_get_node_status''),
                                  (''arguments'', JObj [(''node'', JStr ''pve1'')])])])
     = ([], Inr (Failure (JNum 3) (- 32603) ''Tool execution failed'' (JStr ''Unknown tool: proxmox_get_node_status'')))"
    by (simp add: handleMCPRequest_call handleToolCall_def http_dispatch_def throwIO_def catchIO_def bindIO_def
        returnIO_def Error_def liftE_def)
  show ?thesis unfolding 1 2 by (simp add: sameEnvelope_def)
qed

section \<open>Properties of the fan-out over nodes\<close>

text \<open>
  Claim C3 at the input that breaks it. The loop of \<^verbatim>\<open>getVMs\<close> in the stdio server
  catches nothing. With \<^verbatim>\<open>type: 'qemu'\<close> and the unreachable node first, exactly one
  target fails, the one of \<^verbatim>\<open>pve2\<close>; the call ends at that request, the reachable
  node \<^verbatim>\<open>pve1\<close>, whose request would have answered with the machine \<^verbatim>\<open>web\<close>, is
  never queried, and the answer holds the error only. The HTTP server, whose loop has the
  \<^verbatim>\<open>try\<close> that this one lacks, answers the same call against the same backend with the
  machine of the reachable node.
\<close>

theorem stdio_getVMs_aborts_on_first_failure:
  "callTool \<lparr>allowElevated = False\<rparr> sampleEnv clusterOneDown (JStr ''proxmox_get_vms'')
      (JObj [(''type'', JStr ''qemu'')])
     = ([\<lparr>endpoint = ''/nodes'', httpMethod = ''GET'', body = JUndefined\<rparr>,
         \<lparr>endpoint = ''/nodes/pve2/qemu'', httpMethod = ''GET'', body = JUndefined\<rparr>],
        Inr (textContent ''Error: Failed to connect to Proxmox: connect EHOSTUNREACH''))
   \<and> snd (proxmoxRequest clusterOneDown ''/nodes/pve1/qemu'' ''GET'' JNull) =
       Inr (JArr [JObj [(''vmid'', JNum 100), (''name'', JStr ''web''), (''status'', JStr ''stopped'')]])
   \<and> \<not> sublist ''web'' ''Error: Failed to connect to Proxmox: connect EHOSTUNREACH''
   \<and> handleToolCall sampleEnv clusterOneDown
        (JObj [(''jsonrpc'', JStr ''2.0''), (''id'', JNum 1), (''method'', JStr ''tools/call''),
               (''params'', JObj [(''name'', JStr ''proxmox_get_vms''), (''arguments'', JObj [(''type'', JStr ''qemu'')])])])
     = ([\<lparr>endpoint = ''/nodes'', httpMethod = ''GET'', body = JUndefined\<rparr>,
         \<lparr>endpoint = ''/nodes/pve2/qemu'', httpMethod = ''GET'', body = JUndefined\<rparr>,
         \<lparr>endpoint = ''/nodes/pve1/qemu'', httpMethod = ''GET'', body = JUndefined\<rparr>],
        Inr (Success (JNum 1)
          (textContent (U_LAPTOP @ '' **Virtual Machines**\<newline>\<newline>''
             @ U_RED @ '' '' @ U_SERVER @ '' **web** (ID: 100)\<newline>''
             @ ''   '' @ U_BULLET @ '' Node: pve1\<newline>''
             @ ''   '' @ U_BULLET @ '' Status: stopped\<newline>''
             @ ''   '' @ U_BULLET @ '' Type: QEMU\<newline>\<newline>''))))"
proof (intro conjI)
  show "callTool \<lparr>allowElevated = False\<rparr> sampleEnv clusterOneDown (JStr ''proxmox_get_vms'')
      (JObj [(''type'', JStr ''qemu'')])
     = ([\<lparr>endpoint = ''/nodes'', httpMethod = ''GET'', body = JUndefined\<rparr>,
         \<lparr>endpoint = ''/nodes/pve2/qemu'', httpMethod = ''GET'', body = JUndefined\<rparr>],
        Inr (textContent ''Error: Failed to connect to Proxmox: connect EHOSTUNREACH''))"
    by (simp add: callTool_def dispatch_def getProp_def liftE_def getVMs_def Let_def getVMs_collect_def
        proxmoxRequest_def clusterOneDown_def bindIO_def catchIO_def returnIO_def getVMs_node_def
        wantsQemu_def wantsLxc_def Error_def)
  show "snd (proxmoxRequest clusterOneDown ''/nodes/pve1/qemu'' ''GET'' JNull) =
       Inr (JArr [JObj [(''vmid'', JNum 100), (''name'', JStr ''web''), (''status'', JStr ''stopped'')]])"
    by (simp add: proxmoxRequest_def clusterOneDown_def Let_def getProp_def)
  show "\<not> sublist ''web'' ''Error: Failed to connect to Proxmox: connect EHOSTUNREACH''"
    by code_simp
  have hundred: "decInt 100 = ''100''" by code_simp
  have up: "toUpperCase sampleEnv ''qemu'' = ''QEMU''" by (simp add: toUpperCase_def upperChar_def)
  have loop: "forEachIO (http_getVMs_node sampleEnv clusterOneDown JNull (JStr ''qemu''))
                [JObj [(''node'', JStr ''pve2''), (''status'', JStr ''offline'')],
                 JObj [(''node'', JStr ''pve1''), (''status'', JStr ''online'')]] []
     = ([\<lparr>endpoint = ''/nodes/pve2/qemu'', httpMethod = ''GET'', body = JUndefined\<rparr>,
         \<lparr>endpoint = ''/nodes/pve1/qemu'', httpMethod = ''GET'', body = JUndefined\<rparr>],
        Inr [JObj [(''vmid'', JNum 100), (''name'', JStr ''web''), (''status'', JStr ''stopped''),
                   (''type'', JStr ''qemu''), (''node'', JStr ''pve1'')]])"
    by (simp add: http_getVMs_node_def http_fetchKind_def http_warn_def http_proxmoxRequest_def clusterOneDown_def
          Let_def getProp_def bindIO_def liftE_def returnIO_def wantsQemu_def wantsLxc_def tagVM_def)
  have nodes: "http_proxmoxRequest sampleEnv clusterOneDown ''/nodes''
     = ([\<lparr>endpoint = ''/nodes'', httpMethod = ''GET'', body = JUndefined\<rparr>],
        Inr (JArr [JObj [(''node'', JStr ''pve2''), (''status'', JStr ''offline'')],
                   JObj [(''node'', JStr ''pve1''), (''status'', JStr ''online'')]]))"
    by (simp add: http_proxmoxRequest_def clusterOneDown_def Let_def getProp_def)
  have "http_getVMs sampleEnv clusterOneDown JUndefined (JStr ''qemu'')
     = ([\<lparr>endpoint = ''/nodes'', httpMethod = ''GET'', body = JUndefined\<rparr>,
         \<lparr>endpoint = ''/nodes/pve2/qemu'', httpMethod = ''GET'', body = JUndefined\<rparr>,
         \<lparr>endpoint = ''/nodes/pve1/qemu'', httpMethod = ''GET'', body = JUndefined\<rparr>],
        Inr (U_LAPTOP @ '' **Virtual Machines**\<newline>\<newline>''
             @ U_RED @ '' '' @ U_SERVER @ '' **web** (ID: 100)\<newline>''
             @ ''   '' @ U_BULLET @ '' Node: pve1\<newline>''
             @ ''   '' @ U_BULLET @ '' Status: stopped\<newline>''
             @ ''   '' @ U_BULLET @ '' Type: QEMU\<newline>\<newline>''))"
    unfolding http_getVMs_def Let_def
    by (simp add: nodes loop bindIO_def liftE_def getProp_def sortByNumber_def http_vmBlock_def bindE_def upperOf_def
          up hundred del: forEachIO.simps)
  then show "handleToolCall sampleEnv clusterOneDown
        (JObj [(''jsonrpc'', JStr ''2.0''), (''id'', JNum 1), (''method'', JStr ''tools/call''),
               (''params'', JObj [(''name'', JStr ''proxmox_get_vms''), (''arguments'', JObj [(''type'', JStr ''qemu'')])])])
     = ([\<lparr>endpoint = ''/nodes'', httpMethod = ''GET'', body = JUndefined\<rparr>,
         \<lparr>endpoint = ''/nodes/pve2/qemu'', httpMethod = ''GET'', body = JUndefined\<rparr>,
         \<lparr>endpoint = ''/nodes/pve1/qemu'', httpMethod = ''GET'', body = JUndefined\<rparr>],
        Inr (Success (JNum 1)
          (textContent (U_LAPTOP @ '' **Virtual Machines**\<newline>\<newline>''
             @ U_RED @ '' '' @ U_SERVER @ '' **web** (ID: 100)\<newline>''
             @ ''   '' @ U_BULLET @ '' Node: pve1\<newline>''
             @ ''   '' @ U_BULLET @ '' Status: stopped\<newline>''
             @ ''   '' @ U_BULLET @ '' Type: QEMU\<newline>\<newline>''))))"
    by (simp add: handleToolCall_def http_dispatch_def optProp_def catchIO_def bindIO_def returnIO_def)
qed

section \<open>Properties of the ordering of listings\<close>

























end
